theory Spec2Isabelle
  imports Main "HOL-Library.Word" "HOL-Library.Signed_Division"
begin

section \<open>Machine types\<close>

text \<open>
  The wrapper is modelled for an LP64 target: \<open>unsigned long\<close>, \<open>long\<close>, \<open>size_t\<close> and
  pointers are 64 bits wide, \<open>int\<close> and the engine's \<open>JDIMENSION\<close> (\<open>unsigned int\<close>) are
  32 bits wide. A \<open>byte*\<close> is the address it holds; pointer arithmetic is addition on
  addresses. Signedness lives in the operations (\<open>scast\<close>, \<open>ucast\<close>, \<open><s\<close>), as in C.
\<close>

type_synonym byte_ptr = "64 word"
type_synonym ulong = "64 word"
type_synonym size_t = "64 word"
type_synonym cint = "32 word"
type_synonym JDIMENSION = "32 word"

text \<open>C's \<open>/\<close> on \<open>int\<close>: the quotient is truncated towards zero.\<close>

definition int_div :: "cint \<Rightarrow> cint \<Rightarrow> cint" where
  "int_div a b = word_of_int (sint a sdiv sint b)"

text \<open>
  How a call can fail to come back with a value. \<open>ErrorExit\<close>: the engine reported an
  error through the error manager installed by \<open>jpeg_std_error\<close>; the wrapper installs no
  handler of its own anywhere, so control does not return to the wrapper.
  \<open>NullDereference\<close>: a null adapter pointer was followed.
\<close>

datatype failure = ErrorExit | NullDereference

section \<open>Engine enumerations\<close>

datatype J_COLOR_SPACE =
  JCS_UNKNOWN | JCS_GRAYSCALE | JCS_RGB | JCS_YCbCr | JCS_CMYK | JCS_YCCK

text \<open>The enumerators' values, as stored into the \<open>int colorSpace\<close> field.\<close>

fun J_COLOR_SPACE_int :: "J_COLOR_SPACE \<Rightarrow> cint" where
  "J_COLOR_SPACE_int JCS_UNKNOWN = 0"
| "J_COLOR_SPACE_int JCS_GRAYSCALE = 1"
| "J_COLOR_SPACE_int JCS_RGB = 2"
| "J_COLOR_SPACE_int JCS_YCbCr = 3"
| "J_COLOR_SPACE_int JCS_CMYK = 4"
| "J_COLOR_SPACE_int JCS_YCCK = 5"

datatype J_DCT_METHOD = JDCT_ISLOW | JDCT_IFAST | JDCT_FLOAT

text \<open>The engine header's macro: the fastest method is the fast integer one.\<close>

definition JDCT_FASTEST :: J_DCT_METHOD where
  "JDCT_FASTEST = JDCT_IFAST"

section \<open>Destination adapter\<close>

text \<open>The three functions a destination manager's method slots can point to.\<close>

datatype dest_method = Init_destination | Empty_output_buffer | Term_destination

record jpeg_destination_mgr =
  next_output_byte :: byte_ptr
  free_in_buffer :: size_t
  init_destination_ptr :: dest_method
  empty_output_buffer_ptr :: dest_method
  term_destination_ptr :: dest_method

record memory_destination_mgr =
  pub :: jpeg_destination_mgr
  buffer :: byte_ptr
  buffer_size :: ulong
  data_size :: ulong

text \<open>
  The compressor object: the fields the wrapper reads or writes. \<open>dest\<close> is the adapter
  pointer (\<open>None\<close> is \<open>nullptr\<close>); \<open>adapter_blocks\<close> counts the blocks the wrapper has
  obtained from \<open>alloc_small\<close> for an adapter; \<open>quality_setting\<close> stands for the
  quantisation tables, as the arguments of the last \<open>jpeg_set_quality\<close>.
\<close>

record jpeg_compress_struct =
  dest :: "memory_destination_mgr option"
  adapter_blocks :: nat
  image_width :: JDIMENSION
  image_height :: JDIMENSION
  input_components :: cint
  in_color_space :: J_COLOR_SPACE
  raw_data_in :: bool
  dct_method :: J_DCT_METHOD
  comp_info :: "(cint \<times> cint) list"
  quality_setting :: "(cint \<times> bool) option"
  next_scanline :: JDIMENSION

definition init_destination :: "jpeg_compress_struct \<Rightarrow> failure + jpeg_compress_struct" where
  "init_destination cinfo =
     (case dest cinfo of
        None \<Rightarrow> Inl NullDereference
      | Some d \<Rightarrow>
          Inr (cinfo\<lparr>dest := Some (d\<lparr>
            pub := (pub d)\<lparr>next_output_byte := buffer d, free_in_buffer := buffer_size d\<rparr>,
            data_size := 0\<rparr>)\<rparr>))"

text \<open>
  The overflow callback prints one line on the error stream and answers \<open>FALSE\<close>; the
  result is the answer, the compressor (untouched) and the text printed.
\<close>

definition empty_output_buffer :: "jpeg_compress_struct \<Rightarrow> bool \<times> jpeg_compress_struct \<times> string" where
  "empty_output_buffer cinfo =
     (False, cinfo, ''Buffer overflow in custom destination manager'' @ [CHR 0x0A])"

definition term_destination :: "jpeg_compress_struct \<Rightarrow> failure + jpeg_compress_struct" where
  "term_destination cinfo =
     (case dest cinfo of
        None \<Rightarrow> Inl NullDereference
      | Some d \<Rightarrow>
          Inr (cinfo\<lparr>dest := Some (d\<lparr>data_size := buffer_size d - free_in_buffer (pub d)\<rparr>)\<rparr>))"

text \<open>
  \<open>fresh\<close> is the content of the block \<open>alloc_small\<close> hands back (not initialised by the
  allocator): the first binding fills in the three method slots and the private fields
  and leaves the cursor fields as they came.
\<close>

definition jpeg_memory_dest ::
  "memory_destination_mgr \<Rightarrow> jpeg_compress_struct \<Rightarrow> byte_ptr \<Rightarrow> ulong \<Rightarrow> jpeg_compress_struct" where
  "jpeg_memory_dest fresh cinfo buf sz =
     (case dest cinfo of
        None \<Rightarrow>
          cinfo\<lparr>adapter_blocks := Suc (adapter_blocks cinfo),
                dest := Some (fresh\<lparr>
                  pub := (pub fresh)\<lparr>init_destination_ptr := Init_destination,
                                     empty_output_buffer_ptr := Empty_output_buffer,
                                     term_destination_ptr := Term_destination\<rparr>,
                  buffer := buf, buffer_size := sz, data_size := 0\<rparr>)\<rparr>
      | Some d \<Rightarrow>
          cinfo\<lparr>dest := Some (d\<lparr>buffer := buf, buffer_size := sz, data_size := 0\<rparr>)\<rparr>)"

section \<open>Source adapter\<close>

datatype src_method =
  Init_source | Fill_input_buffer | Skip_input_data | Jpeg_resync_to_restart | Term_source

record jpeg_source_mgr =
  next_input_byte :: byte_ptr
  bytes_in_buffer :: size_t
  init_source_ptr :: src_method
  fill_input_buffer_ptr :: src_method
  skip_input_data_ptr :: src_method
  resync_to_restart_ptr :: src_method
  term_source_ptr :: src_method

record memory_source_mgr =
  src_pub :: jpeg_source_mgr
  src_buffer :: byte_ptr
  src_buffer_size :: ulong

definition init_source :: "memory_source_mgr \<Rightarrow> memory_source_mgr" where
  "init_source src = src"

definition fill_input_buffer :: "memory_source_mgr \<Rightarrow> bool \<times> memory_source_mgr" where
  "fill_input_buffer src = (False, src)"


definition term_source :: "memory_source_mgr \<Rightarrow> memory_source_mgr" where
  "term_source src = src"

text \<open>\<open>fresh\<close> is the block from \<open>alloc_small\<close>, used when no adapter is bound yet.\<close>

definition jpeg_memory_src ::
  "memory_source_mgr \<Rightarrow> memory_source_mgr option \<Rightarrow> byte_ptr \<Rightarrow> ulong \<Rightarrow> memory_source_mgr" where
  "jpeg_memory_src fresh bound buf sz =
     (let src = (case bound of None \<Rightarrow> fresh | Some s \<Rightarrow> s)
      in src\<lparr>src_pub := \<lparr>next_input_byte = buf, bytes_in_buffer = sz,
                          init_source_ptr = Init_source,
                          fill_input_buffer_ptr = Fill_input_buffer,
                          skip_input_data_ptr = Skip_input_data,
                          resync_to_restart_ptr = Jpeg_resync_to_restart,
                          term_source_ptr = Term_source\<rparr>,
             src_buffer := buf, src_buffer_size := sz\<rparr>)"

section \<open>Row pointers of one batch\<close>

text \<open>
  A row-pointer array is a list of slots; \<open>None\<close> is a slot that has not been assigned
  (the arrays are automatic variables without initialiser).
\<close>

type_synonym row_array = "byte_ptr option list"

definition unassigned :: "nat \<Rightarrow> row_array" where
  "unassigned n = replicate n None"

text \<open>
  One pass through the body of the \<open>for\<close> loop of \<open>YuvEncoder::Encode\<close>, at index \<open>i\<close>.
  Products and quotients are \<open>unsigned int\<close>; the index is widened without sign.
\<close>

fun encode_rows_body ::
  "JDIMENSION \<Rightarrow> JDIMENSION \<Rightarrow> byte_ptr \<Rightarrow> byte_ptr \<Rightarrow> byte_ptr \<Rightarrow> nat \<Rightarrow>
   row_array \<times> row_array \<times> row_array \<Rightarrow> row_array \<times> row_array \<times> row_array" where
  "encode_rows_body scanline width Y U V i (y, cb, cr) =
     (y[i := Some (Y + ucast ((scanline + of_nat i) * width))],
      if i mod 2 = 0
      then cb[i div 2 := Some (U + ucast (((scanline + of_nat i) div 2) * (width div 2)))]
      else cb,
      if i mod 2 = 0
      then cr[i div 2 := Some (V + ucast (((scanline + of_nat i) div 2) * (width div 2)))]
      else cr)"

text \<open>The loop, entered at \<open>i\<close>: it stops at 16 or at the first row at or past the
  image height.\<close>

function encode_rows ::
  "JDIMENSION \<Rightarrow> JDIMENSION \<Rightarrow> JDIMENSION \<Rightarrow> byte_ptr \<Rightarrow> byte_ptr \<Rightarrow> byte_ptr \<Rightarrow> nat \<Rightarrow>
   row_array \<times> row_array \<times> row_array \<Rightarrow> row_array \<times> row_array \<times> row_array" where
  "encode_rows scanline height width Y U V i rows =
     (if i < 16 \<and> scanline + of_nat i < height
      then encode_rows scanline height width Y U V (i + 1)
             (encode_rows_body scanline width Y U V i rows)
      else rows)"
  by pat_completeness auto
termination
  by (relation "measure (\<lambda>(scanline, height, width, Y, U, V, i, rows). 16 - i)") auto

declare encode_rows.simps [simp del]

text \<open>
  One pass through the body of the \<open>for\<close> loop of \<open>DecodeToI420\<close>, at index \<open>i\<close>. \<open>y_line\<close>
  and \<open>uv_line\<close> are \<open>int\<close>, compared and multiplied as \<open>int\<close>; the offset is widened with
  sign.
\<close>

fun decode_rows_body ::
  "JDIMENSION \<Rightarrow> cint \<Rightarrow> cint \<Rightarrow> cint \<Rightarrow> byte_ptr \<Rightarrow> byte_ptr \<Rightarrow> byte_ptr \<Rightarrow> nat \<Rightarrow>
   row_array \<times> row_array \<times> row_array \<Rightarrow> row_array \<times> row_array \<times> row_array" where
  "decode_rows_body scanline height y_stride uv_stride Y U V i (y_rows, u_rows, v_rows) =
     (let y_line = scanline + of_nat i;
          y_rows' = (if y_line <s height
                     then y_rows[i := Some (Y + scast (y_line * y_stride))]
                     else y_rows[i := Some (Y + scast ((height - 1) * y_stride))]);
          uv_line = (scanline div 2) + of_nat i;
          u_rows' = (if i < 8
                     then (if uv_line <s int_div height 2
                           then u_rows[i := Some (U + scast (uv_line * uv_stride))]
                           else u_rows[i := Some (U + scast ((int_div height 2 - 1) * uv_stride))])
                     else u_rows);
          v_rows' = (if i < 8
                     then (if uv_line <s int_div height 2
                           then v_rows[i := Some (V + scast (uv_line * uv_stride))]
                           else v_rows[i := Some (V + scast ((int_div height 2 - 1) * uv_stride))])
                     else v_rows)
      in (y_rows', u_rows', v_rows'))"

text \<open>The loop, entered at \<open>i\<close>: all 16 passes run.\<close>

function decode_rows ::
  "JDIMENSION \<Rightarrow> cint \<Rightarrow> cint \<Rightarrow> cint \<Rightarrow> byte_ptr \<Rightarrow> byte_ptr \<Rightarrow> byte_ptr \<Rightarrow> nat \<Rightarrow>
   row_array \<times> row_array \<times> row_array \<Rightarrow> row_array \<times> row_array \<times> row_array" where
  "decode_rows scanline height y_stride uv_stride Y U V i rows =
     (if i < 16
      then decode_rows scanline height y_stride uv_stride Y U V (i + 1)
             (decode_rows_body scanline height y_stride uv_stride Y U V i rows)
      else rows)"
  by pat_completeness auto
termination
  by (relation "measure (\<lambda>(scanline, height, y_stride, uv_stride, Y, U, V, i, rows). 16 - i)") auto

declare decode_rows.simps [simp del]

section \<open>The compression engine\<close>

text \<open>
  The JPEG engine is not part of the wrapper: it is a parameter. An engine call either
  comes back with the values the wrapper can observe afterwards, or it takes the error
  exit of the standard error manager.
\<close>

datatype 'a engine_result = Error_exit | Returns 'a

type_synonym row_arrays = "row_array \<times> row_array \<times> row_array"

text \<open>
  \<open>fresh_dest_block\<close>: the content of a block from \<open>alloc_small\<close>.
  \<open>start_compress\<close>: the adapter's cursor and remaining capacity once \<open>jpeg_start_compress\<close>
  has accepted the settings and emitted the head of the datastream; the error exit when
  it refuses them.
  \<open>write_raw_data\<close>, \<open>write_scanlines\<close>: the rows consumed by one call (0: none, the call
  is to be repeated) and the adapter's cursor and remaining capacity after it.
  \<open>finish_compress\<close>: cursor and remaining capacity once the last byte has been emitted.
\<close>

record compressor =
  fresh_dest_block :: memory_destination_mgr
  start_compress :: "jpeg_compress_struct \<Rightarrow> (byte_ptr \<times> size_t) engine_result"
  write_raw_data ::
    "jpeg_compress_struct \<Rightarrow> row_arrays \<Rightarrow> JDIMENSION \<Rightarrow> (JDIMENSION \<times> byte_ptr \<times> size_t) engine_result"
  write_scanlines ::
    "jpeg_compress_struct \<Rightarrow> byte_ptr list \<Rightarrow> JDIMENSION \<Rightarrow> (JDIMENSION \<times> byte_ptr \<times> size_t) engine_result"
  finish_compress :: "jpeg_compress_struct \<Rightarrow> (byte_ptr \<times> size_t) engine_result"

text \<open>A call through one of the adapter's method slots.\<close>

definition call_dest_method :: "dest_method \<Rightarrow> jpeg_compress_struct \<Rightarrow> failure + jpeg_compress_struct" where
  "call_dest_method m cinfo =
     (case m of
        Init_destination \<Rightarrow> init_destination cinfo
      | Empty_output_buffer \<Rightarrow> Inr (fst (snd (empty_output_buffer cinfo)))
      | Term_destination \<Rightarrow> term_destination cinfo)"

text \<open>\<open>jpeg_create_compress\<close> clears the object: no adapter is bound.\<close>

definition jpeg_create_compress :: jpeg_compress_struct where
  "jpeg_create_compress =
     \<lparr>dest = None, adapter_blocks = 0, image_width = 0, image_height = 0,
      input_components = 0, in_color_space = JCS_UNKNOWN, raw_data_in = False,
      dct_method = JDCT_ISLOW, comp_info = [], quality_setting = None, next_scanline = 0\<rparr>"

text \<open>
  \<open>jpeg_set_defaults\<close>, on the fields of the model: the default sampling factors of the
  input colour space, the default transform, interleaved input, quality 75.
\<close>

definition jpeg_set_defaults :: "jpeg_compress_struct \<Rightarrow> jpeg_compress_struct" where
  "jpeg_set_defaults cinfo =
     cinfo\<lparr>comp_info := (if in_color_space cinfo = JCS_YCbCr then [(2, 2), (1, 1), (1, 1)]
                          else replicate (unat (input_components cinfo)) (1, 1)),
           dct_method := JDCT_ISLOW, raw_data_in := False,
           quality_setting := Some (75, True)\<rparr>"

definition jpeg_set_quality :: "jpeg_compress_struct \<Rightarrow> cint \<Rightarrow> bool \<Rightarrow> jpeg_compress_struct" where
  "jpeg_set_quality cinfo quality force_baseline =
     cinfo\<lparr>quality_setting := Some (quality, force_baseline)\<rparr>"

text \<open>
  \<open>jpeg_start_compress\<close> calls the adapter's \<open>init_destination\<close> slot, then checks the
  settings and emits the head of the datastream through the adapter, and sets
  \<open>next_scanline\<close> to 0.
\<close>

definition jpeg_start_compress :: "compressor \<Rightarrow> jpeg_compress_struct \<Rightarrow> failure + jpeg_compress_struct" where
  "jpeg_start_compress eng cinfo =
     (case dest cinfo of
        None \<Rightarrow> Inl NullDereference
      | Some d \<Rightarrow>
          (case call_dest_method (init_destination_ptr (pub d)) cinfo of
             Inl e \<Rightarrow> Inl e
           | Inr cinfo' \<Rightarrow>
               (case start_compress eng cinfo' of
                  Error_exit \<Rightarrow> Inl ErrorExit
                | Returns (cursor, remaining) \<Rightarrow>
                    (case dest cinfo' of
                       None \<Rightarrow> Inl NullDereference
                     | Some d' \<Rightarrow>
                         Inr (cinfo'\<lparr>next_scanline := 0,
                                     dest := Some (d'\<lparr>pub := (pub d')\<lparr>next_output_byte := cursor,
                                                                       free_in_buffer := remaining\<rparr>\<rparr>)\<rparr>)))))"

text \<open>What a write call leaves behind: the scanline counter and the adapter's cursor.\<close>

definition after_write ::
  "jpeg_compress_struct \<Rightarrow> (JDIMENSION \<times> byte_ptr \<times> size_t) engine_result \<Rightarrow>
   failure + jpeg_compress_struct" where
  "after_write cinfo r =
     (case r of
        Error_exit \<Rightarrow> Inl ErrorExit
      | Returns (lines, cursor, remaining) \<Rightarrow>
          (case dest cinfo of
             None \<Rightarrow> Inl NullDereference
           | Some d \<Rightarrow>
               Inr (cinfo\<lparr>next_scanline := next_scanline cinfo + lines,
                          dest := Some (d\<lparr>pub := (pub d)\<lparr>next_output_byte := cursor,
                                                           free_in_buffer := remaining\<rparr>\<rparr>)\<rparr>)))"

definition jpeg_write_raw_data ::
  "compressor \<Rightarrow> jpeg_compress_struct \<Rightarrow> row_arrays \<Rightarrow> JDIMENSION \<Rightarrow> failure + jpeg_compress_struct" where
  "jpeg_write_raw_data eng cinfo planes num_lines =
     after_write cinfo (write_raw_data eng cinfo planes num_lines)"

definition jpeg_write_scanlines ::
  "compressor \<Rightarrow> jpeg_compress_struct \<Rightarrow> byte_ptr list \<Rightarrow> JDIMENSION \<Rightarrow> failure + jpeg_compress_struct" where
  "jpeg_write_scanlines eng cinfo scanlines num_lines =
     after_write cinfo (write_scanlines eng cinfo scanlines num_lines)"

text \<open>\<open>jpeg_finish_compress\<close> emits what is left and calls the \<open>term_destination\<close> slot.\<close>

definition jpeg_finish_compress :: "compressor \<Rightarrow> jpeg_compress_struct \<Rightarrow> failure + jpeg_compress_struct" where
  "jpeg_finish_compress eng cinfo =
     (case finish_compress eng cinfo of
        Error_exit \<Rightarrow> Inl ErrorExit
      | Returns (cursor, remaining) \<Rightarrow>
          (case dest cinfo of
             None \<Rightarrow> Inl NullDereference
           | Some d \<Rightarrow>
               call_dest_method (term_destination_ptr (pub d))
                 (cinfo\<lparr>dest := Some (d\<lparr>pub := (pub d)\<lparr>next_output_byte := cursor,
                                                         free_in_buffer := remaining\<rparr>\<rparr>)\<rparr>)))"

section \<open>YuvEncoder\<close>

text \<open>
  The encoder object is its compressor (the error manager beside it holds nothing the
  wrapper reads). The constructor's \<open>int\<close> arguments are stored into unsigned fields bit
  for bit; \<open>bufferSize\<close> is widened with sign to the \<open>ulong\<close> parameter.
\<close>

type_synonym YuvEncoder = jpeg_compress_struct

definition YuvEncoder_new :: "compressor \<Rightarrow> cint \<Rightarrow> cint \<Rightarrow> cint \<Rightarrow> cint \<Rightarrow> YuvEncoder" where
  "YuvEncoder_new eng w h quality bufferSize =
     (let cinfo = jpeg_create_compress;
          cinfo = cinfo\<lparr>image_width := w, image_height := h,
                        input_components := 3, in_color_space := JCS_YCbCr\<rparr>;
          cinfo = jpeg_set_defaults cinfo;
          cinfo = jpeg_set_quality cinfo quality False;
          cinfo = cinfo\<lparr>raw_data_in := True\<rparr>;
          cinfo = cinfo\<lparr>comp_info := (comp_info cinfo)[0 := (2, 2), 1 := (1, 1), 2 := (1, 1)]\<rparr>
      in jpeg_memory_dest (fresh_dest_block eng) cinfo 0 (scast bufferSize))"

definition SetQuality :: "YuvEncoder \<Rightarrow> cint \<Rightarrow> YuvEncoder" where
  "SetQuality enc quality = jpeg_set_quality enc quality False"

definition SetMode :: "YuvEncoder \<Rightarrow> cint \<Rightarrow> YuvEncoder" where
  "SetMode enc mode =
     (if mode = 0 then enc\<lparr>dct_method := JDCT_ISLOW\<rparr> else enc\<lparr>dct_method := JDCT_FASTEST\<rparr>)"

text \<open>
  The \<open>while\<close> loop of \<open>Encode\<close>. The engine decides how far each call advances
  \<open>next_scanline\<close>, so the loop need not end: \<open>None\<close> is a run that never leaves it.
\<close>

partial_function (option) encode_loop ::
  "compressor \<Rightarrow> JDIMENSION \<Rightarrow> byte_ptr \<Rightarrow> byte_ptr \<Rightarrow> byte_ptr \<Rightarrow> jpeg_compress_struct \<Rightarrow>
   (failure + jpeg_compress_struct) option" where
  "encode_loop eng w Y U V cinfo =
     (if next_scanline cinfo < image_height cinfo
      then (case jpeg_write_raw_data eng cinfo
                   (encode_rows (next_scanline cinfo) (image_height cinfo) w Y U V 0
                      (unassigned 16, unassigned 8, unassigned 8)) 16 of
              Inl e \<Rightarrow> Some (Inl e)
            | Inr cinfo' \<Rightarrow> encode_loop eng w Y U V cinfo')
      else Some (Inr cinfo))"

text \<open>
  \<open>Encode\<close>: the bytes reported and the encoder afterwards. \<open>width * height\<close> is an
  \<open>unsigned int\<close> product, widened to \<open>size_t\<close>.
\<close>

definition Encode ::
  "compressor \<Rightarrow> YuvEncoder \<Rightarrow> byte_ptr \<Rightarrow> byte_ptr \<Rightarrow> ulong \<Rightarrow> (failure + ulong \<times> YuvEncoder) option" where
  "Encode eng enc data dstBuffer dstBufferSize =
     (case jpeg_start_compress eng
             (jpeg_memory_dest (fresh_dest_block eng) enc dstBuffer dstBufferSize) of
        Inl e \<Rightarrow> Some (Inl e)
      | Inr cinfo \<Rightarrow>
          (let w = image_width cinfo;
               h = image_height cinfo;
               sizeY = (ucast (w * h) :: size_t);
               sizeU = sizeY div 4;
               Y = data;
               U = data + sizeY;
               V = data + sizeY + sizeU
           in case encode_loop eng w Y U V cinfo of
                None \<Rightarrow> None
              | Some (Inl e) \<Rightarrow> Some (Inl e)
              | Some (Inr cinfo') \<Rightarrow>
                  (case jpeg_finish_compress eng cinfo' of
                     Inl e \<Rightarrow> Some (Inl e)
                   | Inr cinfo'' \<Rightarrow>
                       (case dest cinfo'' of
                          None \<Rightarrow> Some (Inl NullDereference)
                        | Some d \<Rightarrow> Some (Inr (data_size d, cinfo''))))))"

text \<open>The exported entry point: \<open>size\<close> is narrowed to the constructor's \<open>int\<close>.\<close>

definition Create :: "compressor \<Rightarrow> cint \<Rightarrow> cint \<Rightarrow> cint \<Rightarrow> ulong \<Rightarrow> YuvEncoder" where
  "Create eng w h quality sz = YuvEncoder_new eng w h quality (ucast sz)"

section \<open>EncodeGray8\<close>

partial_function (option) gray8_loop ::
  "compressor \<Rightarrow> byte_ptr \<Rightarrow> cint \<Rightarrow> jpeg_compress_struct \<Rightarrow>
   (failure + jpeg_compress_struct) option" where
  "gray8_loop eng grayData row_stride cinfo =
     (if next_scanline cinfo < image_height cinfo
      then (case jpeg_write_scanlines eng cinfo
                   [grayData + ucast (next_scanline cinfo * row_stride)] 1 of
              Inl e \<Rightarrow> Some (Inl e)
            | Inr cinfo' \<Rightarrow> gray8_loop eng grayData row_stride cinfo')
      else Some (Inr cinfo))"

definition EncodeGray8 ::
  "compressor \<Rightarrow> byte_ptr \<Rightarrow> cint \<Rightarrow> cint \<Rightarrow> cint \<Rightarrow> byte_ptr \<Rightarrow> ulong \<Rightarrow> (failure + ulong) option" where
  "EncodeGray8 eng grayData w h quality output outputSize =
     (let cinfo = jpeg_create_compress;
          cinfo = jpeg_memory_dest (fresh_dest_block eng) cinfo output outputSize;
          cinfo = cinfo\<lparr>image_width := w, image_height := h,
                        input_components := 1, in_color_space := JCS_GRAYSCALE\<rparr>;
          cinfo = jpeg_set_defaults cinfo;
          cinfo = jpeg_set_quality cinfo quality True
      in case jpeg_start_compress eng cinfo of
           Inl e \<Rightarrow> Some (Inl e)
         | Inr cinfo \<Rightarrow>
             (case gray8_loop eng grayData w cinfo of
                None \<Rightarrow> None
              | Some (Inl e) \<Rightarrow> Some (Inl e)
              | Some (Inr cinfo') \<Rightarrow>
                  (case jpeg_finish_compress eng cinfo' of
                     Inl e \<Rightarrow> Some (Inl e)
                   | Inr cinfo'' \<Rightarrow>
                       (case dest cinfo'' of
                          None \<Rightarrow> Some (Inl NullDereference)
                        | Some d \<Rightarrow> Some (Inr (data_size d))))))"

section \<open>The decompression engine\<close>

definition JPEG_SUSPENDED :: cint where
  "JPEG_SUSPENDED = 0"

definition JPEG_HEADER_OK :: cint where
  "JPEG_HEADER_OK = 1"

definition JPEG_HEADER_TABLES_ONLY :: cint where
  "JPEG_HEADER_TABLES_ONLY = 2"

text \<open>The engine's entry points for decompression, as they appear in the call record.\<close>

datatype api_call =
  Jpeg_create_decompress | Jpeg_read_header | Jpeg_start_decompress | Jpeg_read_scanlines
| Jpeg_read_raw_data | Jpeg_finish_decompress | Jpeg_abort_decompress | Jpeg_destroy_decompress

text \<open>
  The decompressor object: the fields the wrapper reads or writes, and \<open>call_record\<close>, the
  engine entry points called on this object so far, oldest first.
\<close>

record jpeg_decompress_struct =
  src :: "memory_source_mgr option"
  d_image_width :: JDIMENSION
  d_image_height :: JDIMENSION
  num_components :: cint
  jpeg_color_space :: J_COLOR_SPACE
  out_color_space :: J_COLOR_SPACE
  raw_data_out :: bool
  output_width :: JDIMENSION
  output_height :: JDIMENSION
  output_components :: cint
  output_scanline :: JDIMENSION
  call_record :: "api_call list"

text \<open>
  \<open>fresh_src_block\<close>: the content of a block from \<open>alloc_small\<close>.
  \<open>read_header\<close>: the status returned and the header fields (width, height, component
  count, colour space of the stream, default output colour space).
  \<open>start_decompress\<close>: the output width, height and components per pixel.
  \<open>read_scanlines\<close>, \<open>read_raw_data\<close>: the rows delivered by one call (0: none).
  \<open>finish_decompress\<close>: the value returned.
\<close>

record decompressor =
  fresh_src_block :: memory_source_mgr
  read_header ::
    "jpeg_decompress_struct \<Rightarrow> bool \<Rightarrow>
     (cint \<times> JDIMENSION \<times> JDIMENSION \<times> cint \<times> J_COLOR_SPACE \<times> J_COLOR_SPACE) engine_result"
  start_decompress :: "jpeg_decompress_struct \<Rightarrow> (JDIMENSION \<times> JDIMENSION \<times> cint) engine_result"
  read_scanlines :: "jpeg_decompress_struct \<Rightarrow> byte_ptr list \<Rightarrow> JDIMENSION \<Rightarrow> JDIMENSION engine_result"
  read_raw_data :: "jpeg_decompress_struct \<Rightarrow> row_arrays \<Rightarrow> JDIMENSION \<Rightarrow> JDIMENSION engine_result"
  finish_decompress :: "jpeg_decompress_struct \<Rightarrow> bool engine_result"

definition called :: "api_call \<Rightarrow> jpeg_decompress_struct \<Rightarrow> jpeg_decompress_struct" where
  "called f cinfo = cinfo\<lparr>call_record := call_record cinfo @ [f]\<rparr>"

definition jpeg_create_decompress :: jpeg_decompress_struct where
  "jpeg_create_decompress =
     \<lparr>src = None, d_image_width = 0, d_image_height = 0, num_components = 0,
      jpeg_color_space = JCS_UNKNOWN, out_color_space = JCS_UNKNOWN, raw_data_out = False,
      output_width = 0, output_height = 0, output_components = 0, output_scanline = 0,
      call_record = [Jpeg_create_decompress]\<rparr>"

definition jpeg_read_header ::
  "decompressor \<Rightarrow> jpeg_decompress_struct \<Rightarrow> bool \<Rightarrow> failure + cint \<times> jpeg_decompress_struct" where
  "jpeg_read_header eng cinfo require_image =
     (case read_header eng cinfo require_image of
        Error_exit \<Rightarrow> Inl ErrorExit
      | Returns (status, w, h, n, cs, out_cs) \<Rightarrow>
          Inr (status,
               called Jpeg_read_header
                 (if status = JPEG_HEADER_OK
                  then cinfo\<lparr>d_image_width := w, d_image_height := h, num_components := n,
                             jpeg_color_space := cs, out_color_space := out_cs\<rparr>
                  else cinfo)))"

definition jpeg_start_decompress ::
  "decompressor \<Rightarrow> jpeg_decompress_struct \<Rightarrow> failure + jpeg_decompress_struct" where
  "jpeg_start_decompress eng cinfo =
     (case start_decompress eng cinfo of
        Error_exit \<Rightarrow> Inl ErrorExit
      | Returns (w, h, n) \<Rightarrow>
          Inr (called Jpeg_start_decompress
                 (cinfo\<lparr>output_width := w, output_height := h, output_components := n,
                        output_scanline := 0\<rparr>)))"

definition jpeg_read_scanlines ::
  "decompressor \<Rightarrow> jpeg_decompress_struct \<Rightarrow> byte_ptr list \<Rightarrow> JDIMENSION \<Rightarrow>
   failure + jpeg_decompress_struct" where
  "jpeg_read_scanlines eng cinfo scanlines max_lines =
     (case read_scanlines eng cinfo scanlines max_lines of
        Error_exit \<Rightarrow> Inl ErrorExit
      | Returns lines \<Rightarrow>
          Inr (called Jpeg_read_scanlines
                 (cinfo\<lparr>output_scanline := output_scanline cinfo + lines\<rparr>)))"

definition jpeg_read_raw_data ::
  "decompressor \<Rightarrow> jpeg_decompress_struct \<Rightarrow> row_arrays \<Rightarrow> JDIMENSION \<Rightarrow>
   failure + jpeg_decompress_struct" where
  "jpeg_read_raw_data eng cinfo planes max_lines =
     (case read_raw_data eng cinfo planes max_lines of
        Error_exit \<Rightarrow> Inl ErrorExit
      | Returns lines \<Rightarrow>
          Inr (called Jpeg_read_raw_data
                 (cinfo\<lparr>output_scanline := output_scanline cinfo + lines\<rparr>)))"

definition jpeg_finish_decompress ::
  "decompressor \<Rightarrow> jpeg_decompress_struct \<Rightarrow> failure + jpeg_decompress_struct" where
  "jpeg_finish_decompress eng cinfo =
     (case finish_decompress eng cinfo of
        Error_exit \<Rightarrow> Inl ErrorExit
      | Returns done \<Rightarrow> Inr (called Jpeg_finish_decompress cinfo))"

definition jpeg_abort_decompress :: "jpeg_decompress_struct \<Rightarrow> jpeg_decompress_struct" where
  "jpeg_abort_decompress cinfo = called Jpeg_abort_decompress cinfo"

definition jpeg_destroy_decompress :: "jpeg_decompress_struct \<Rightarrow> jpeg_decompress_struct" where
  "jpeg_destroy_decompress cinfo = called Jpeg_destroy_decompress (cinfo\<lparr>src := None\<rparr>)"

section \<open>Decoding\<close>

record DecodeInfo =
  width :: cint
  height :: cint
  components :: cint
  colorSpace :: cint

text \<open>
  A decoding call that comes back gives the value returned, the caller's \<open>DecodeInfo\<close>
  as the call leaves it, and the record of the engine calls it made. The \<open>info\<close> argument
  is the object the caller's pointer designates.
\<close>

type_synonym decode_result = "(failure + ulong \<times> DecodeInfo \<times> api_call list) option"

partial_function (option) gray_loop ::
  "decompressor \<Rightarrow> byte_ptr \<Rightarrow> ulong \<Rightarrow> jpeg_decompress_struct \<Rightarrow>
   (failure + jpeg_decompress_struct) option" where
  "gray_loop eng output rowStride cinfo =
     (if output_scanline cinfo < output_height cinfo
      then (case jpeg_read_scanlines eng cinfo
                   [output + ucast (output_scanline cinfo) * rowStride] 1 of
              Inl e \<Rightarrow> Some (Inl e)
            | Inr cinfo' \<Rightarrow> gray_loop eng output rowStride cinfo')
      else Some (Inr cinfo))"

text \<open>\<open>rowStride\<close> is an \<open>unsigned int\<close> product widened to \<open>ulong\<close>; \<open>totalSize\<close> is a
  \<open>ulong\<close> product.\<close>

definition DecodeToGray ::
  "decompressor \<Rightarrow> byte_ptr \<Rightarrow> ulong \<Rightarrow> byte_ptr \<Rightarrow> ulong \<Rightarrow> DecodeInfo \<Rightarrow> decode_result" where
  "DecodeToGray eng jpegData jpegSize output outputSize info =
     (let cinfo = jpeg_create_decompress;
          cinfo = cinfo\<lparr>src := Some (jpeg_memory_src (fresh_src_block eng) (src cinfo) jpegData jpegSize)\<rparr>
      in case jpeg_read_header eng cinfo True of
           Inl e \<Rightarrow> Some (Inl e)
         | Inr (status, cinfo) \<Rightarrow>
             if status \<noteq> JPEG_HEADER_OK
             then Some (Inr (0, info, call_record (jpeg_destroy_decompress cinfo)))
             else
               (case jpeg_start_decompress eng (cinfo\<lparr>out_color_space := JCS_GRAYSCALE\<rparr>) of
                  Inl e \<Rightarrow> Some (Inl e)
                | Inr cinfo \<Rightarrow>
                    (let info = info\<lparr>width := output_width cinfo,
                                     height := output_height cinfo,
                                     components := output_components cinfo,
                                     colorSpace := J_COLOR_SPACE_int (out_color_space cinfo)\<rparr>;
                         rowStride = (ucast (output_width cinfo * output_components cinfo) :: ulong);
                         totalSize = rowStride * ucast (output_height cinfo)
                     in if totalSize > outputSize
                        then Some (Inr (0, info,
                               call_record (jpeg_destroy_decompress (jpeg_abort_decompress cinfo))))
                        else
                          (case gray_loop eng output rowStride cinfo of
                             None \<Rightarrow> None
                           | Some (Inl e) \<Rightarrow> Some (Inl e)
                           | Some (Inr cinfo) \<Rightarrow>
                               (case jpeg_finish_decompress eng cinfo of
                                  Inl e \<Rightarrow> Some (Inl e)
                                | Inr cinfo \<Rightarrow>
                                    Some (Inr (totalSize, info,
                                      call_record (jpeg_destroy_decompress cinfo))))))))"

text \<open>
  The \<open>while\<close> loop of \<open>DecodeToI420\<close>. The three row arrays live outside the loop and keep
  their slots from one batch to the next. \<open>lines_to_read\<close> is computed and not used.
\<close>

partial_function (option) i420_loop ::
  "decompressor \<Rightarrow> cint \<Rightarrow> cint \<Rightarrow> cint \<Rightarrow> byte_ptr \<Rightarrow> byte_ptr \<Rightarrow> byte_ptr \<Rightarrow>
   row_arrays \<times> jpeg_decompress_struct \<Rightarrow> (failure + jpeg_decompress_struct) option" where
  "i420_loop eng h y_stride uv_stride Y U V st =
     (if output_scanline (snd st) < output_height (snd st)
      then (let planes = decode_rows (output_scanline (snd st)) h y_stride uv_stride Y U V 0 (fst st)
            in case jpeg_read_raw_data eng (snd st) planes 16 of
                 Inl e \<Rightarrow> Some (Inl e)
               | Inr cinfo' \<Rightarrow> i420_loop eng h y_stride uv_stride Y U V (planes, cinfo'))
      else Some (Inr (snd st)))"

text \<open>\<open>width * height\<close> is an \<open>int\<close> product, widened with sign to \<open>ulong\<close>.\<close>

definition DecodeToI420 ::
  "decompressor \<Rightarrow> byte_ptr \<Rightarrow> ulong \<Rightarrow> byte_ptr \<Rightarrow> ulong \<Rightarrow> DecodeInfo \<Rightarrow> decode_result" where
  "DecodeToI420 eng jpegData jpegSize output outputSize info =
     (let cinfo = jpeg_create_decompress;
          cinfo = cinfo\<lparr>src := Some (jpeg_memory_src (fresh_src_block eng) (src cinfo) jpegData jpegSize)\<rparr>
      in case jpeg_read_header eng cinfo True of
           Inl e \<Rightarrow> Some (Inl e)
         | Inr (status, cinfo) \<Rightarrow>
             if status \<noteq> JPEG_HEADER_OK
             then Some (Inr (0, info, call_record (jpeg_destroy_decompress cinfo)))
             else
               (case jpeg_start_decompress eng
                       (cinfo\<lparr>raw_data_out := True, out_color_space := JCS_YCbCr\<rparr>) of
                  Inl e \<Rightarrow> Some (Inl e)
                | Inr cinfo \<Rightarrow>
                    (let w = output_width cinfo;
                         h = output_height cinfo;
                         info = info\<lparr>width := w, height := h, components := 3,
                                     colorSpace := J_COLOR_SPACE_int (out_color_space cinfo)\<rparr>;
                         sizeY = (scast (w * h) :: ulong);
                         sizeU = sizeY div 4;
                         sizeV = sizeU;
                         totalSize = sizeY + sizeU + sizeV
                     in if totalSize > outputSize
                        then Some (Inr (0, info,
                               call_record (jpeg_destroy_decompress (jpeg_abort_decompress cinfo))))
                        else
                          (let Y = output;
                               U = output + sizeY;
                               V = output + sizeY + sizeU;
                               y_stride = w;
                               uv_stride = int_div w 2
                           in case i420_loop eng h y_stride uv_stride Y U V
                                     ((unassigned 16, unassigned 8, unassigned 8), cinfo) of
                                None \<Rightarrow> None
                              | Some (Inl e) \<Rightarrow> Some (Inl e)
                              | Some (Inr cinfo) \<Rightarrow>
                                  (case jpeg_finish_decompress eng cinfo of
                                     Inl e \<Rightarrow> Some (Inl e)
                                   | Inr cinfo \<Rightarrow>
                                       Some (Inr (totalSize, info,
                                         call_record (jpeg_destroy_decompress cinfo))))))))"

text \<open>\<open>GetJpegInfo\<close>: the \<open>int\<close> returned, the caller's \<open>DecodeInfo\<close> and the call record.\<close>

definition GetJpegInfo ::
  "decompressor \<Rightarrow> byte_ptr \<Rightarrow> ulong \<Rightarrow> DecodeInfo \<Rightarrow> failure + cint \<times> DecodeInfo \<times> api_call list" where
  "GetJpegInfo eng jpegData jpegSize info =
     (let cinfo = jpeg_create_decompress;
          cinfo = cinfo\<lparr>src := Some (jpeg_memory_src (fresh_src_block eng) (src cinfo) jpegData jpegSize)\<rparr>
      in case jpeg_read_header eng cinfo True of
           Inl e \<Rightarrow> Inl e
         | Inr (status, cinfo) \<Rightarrow>
             if status \<noteq> JPEG_HEADER_OK
             then Inr (0, info, call_record (jpeg_destroy_decompress cinfo))
             else Inr (1,
                       info\<lparr>width := d_image_width cinfo,
                            height := d_image_height cinfo,
                            components := num_components cinfo,
                            colorSpace := J_COLOR_SPACE_int (jpeg_color_space cinfo)\<rparr>,
                       call_record (jpeg_destroy_decompress cinfo)))"

section \<open>Notions used in the statements\<close>

text \<open>The adapter's method slots hold the wrapper's three functions.\<close>

definition wrapper_methods :: "memory_destination_mgr \<Rightarrow> bool" where
  "wrapper_methods d \<longleftrightarrow>
     init_destination_ptr (pub d) = Init_destination \<and>
     empty_output_buffer_ptr (pub d) = Empty_output_buffer \<and>
     term_destination_ptr (pub d) = Term_destination"

text \<open>
  A compressor with the state of one encode call blanked: the scanline counter and the
  adapter's cursor, remaining capacity and written size. Two compressors with the same
  image under it differ in nothing else.
\<close>

definition per_call_cleared :: "jpeg_compress_struct \<Rightarrow> jpeg_compress_struct" where
  "per_call_cleared cinfo =
     cinfo\<lparr>next_scanline := 0,
           dest := map_option
             (\<lambda>d. d\<lparr>pub := (pub d)\<lparr>next_output_byte := 0, free_in_buffer := 0\<rparr>, data_size := 0\<rparr>)
             (dest cinfo)\<rparr>"

text \<open>The decompressor a decoding call sets up before it reads the header: created, with
  the source adapter bound to the caller's bytes.\<close>

definition decompressor_for :: "decompressor \<Rightarrow> byte_ptr \<Rightarrow> ulong \<Rightarrow> jpeg_decompress_struct" where
  "decompressor_for eng jpegData jpegSize =
     (let cinfo = jpeg_create_decompress
      in cinfo\<lparr>src := Some (jpeg_memory_src (fresh_src_block eng) (src cinfo) jpegData jpegSize)\<rparr>)"

section \<open>A sample engine\<close>

text \<open>
  An engine to run the model on. It refuses empty images at start and otherwise emits
  the 2 bytes of the start-of-image marker there. Each raw-data call takes a full batch
  of 16 rows and emits 8 bytes, each scanline call takes one row and emits 3 bytes,
  finishing emits 2 bytes. The block its allocator hands out holds arbitrary method
  slots.

  It emits a byte the way the engine's marker writer does: the byte is stored at the
  cursor and the cursor advanced, then the remaining capacity is decremented, and only
  then compared with 0; when it has reached 0 the overflow callback is asked and, on
  \<open>FALSE\<close>, the engine takes the error exit. The capacity is not looked at before the
  store.
\<close>

definition sample_dest_block :: memory_destination_mgr where
  "sample_dest_block =
     \<lparr>pub = \<lparr>next_output_byte = 0, free_in_buffer = 0,
             init_destination_ptr = Term_destination,
             empty_output_buffer_ptr = Term_destination,
             term_destination_ptr = Init_destination\<rparr>,
      buffer = 0, buffer_size = 0, data_size = 0\<rparr>"

fun sample_emit_bytes ::
  "jpeg_compress_struct \<Rightarrow> nat \<Rightarrow> byte_ptr \<Rightarrow> size_t \<Rightarrow> (byte_ptr \<times> size_t) engine_result" where
  "sample_emit_bytes cinfo 0 cursor remaining = Returns (cursor, remaining)"
| "sample_emit_bytes cinfo (Suc n) cursor remaining =
     (if remaining - 1 = 0 \<and> \<not> fst (empty_output_buffer cinfo)
      then Error_exit
      else sample_emit_bytes cinfo n (cursor + 1) (remaining - 1))"

definition sample_emit ::
  "jpeg_compress_struct \<Rightarrow> nat \<Rightarrow> (byte_ptr \<times> size_t) engine_result" where
  "sample_emit cinfo n =
     (case dest cinfo of
        None \<Rightarrow> Error_exit
      | Some d \<Rightarrow> sample_emit_bytes cinfo n (next_output_byte (pub d)) (free_in_buffer (pub d)))"

definition sample_compressor :: compressor where
  "sample_compressor =
     \<lparr>fresh_dest_block = sample_dest_block,
      start_compress = (\<lambda>cinfo.
         if image_width cinfo = 0 \<or> image_height cinfo = 0 then Error_exit
         else sample_emit cinfo 2),
      write_raw_data = (\<lambda>cinfo planes num_lines.
         case sample_emit cinfo 8 of
           Error_exit \<Rightarrow> Error_exit
         | Returns (cursor, remaining) \<Rightarrow> Returns (16, cursor, remaining)),
      write_scanlines = (\<lambda>cinfo scanlines num_lines.
         case sample_emit cinfo 3 of
           Error_exit \<Rightarrow> Error_exit
         | Returns (cursor, remaining) \<Rightarrow> Returns (1, cursor, remaining)),
      finish_compress = (\<lambda>cinfo. sample_emit cinfo 2)\<rparr>"

definition sample_encoder :: YuvEncoder where
  "sample_encoder = YuvEncoder_new sample_compressor 16 16 80 1000"

definition sample_source :: memory_source_mgr where
  "sample_source =
     \<lparr>src_pub = \<lparr>next_input_byte = 4096, bytes_in_buffer = 64,
                 init_source_ptr = Init_source,
                 fill_input_buffer_ptr = Fill_input_buffer,
                 skip_input_data_ptr = Skip_input_data,
                 resync_to_restart_ptr = Jpeg_resync_to_restart,
                 term_source_ptr = Term_source\<rparr>,
      src_buffer = 4096, src_buffer_size = 64\<rparr>"

text \<open>
  A sample decompression engine. With fewer than 32 bytes to read the header parse is
  suspended; otherwise the stream is a 16 by 16 grayscale image of one component.
  Output dimensions are the image dimensions; a scanline call delivers one row, a
  raw-data call a batch of 16.
\<close>

definition sample_decompressor :: decompressor where
  "sample_decompressor =
     \<lparr>fresh_src_block = sample_source,
      read_header = (\<lambda>cinfo require_image.
         case src cinfo of
           None \<Rightarrow> Error_exit
         | Some s \<Rightarrow>
             if bytes_in_buffer (src_pub s) < 32
             then Returns (JPEG_SUSPENDED, 0, 0, 0, JCS_UNKNOWN, JCS_UNKNOWN)
             else Returns (JPEG_HEADER_OK, 16, 16, 1, JCS_GRAYSCALE, JCS_GRAYSCALE)),
      start_decompress = (\<lambda>cinfo.
         Returns (d_image_width cinfo, d_image_height cinfo,
                  if out_color_space cinfo = JCS_GRAYSCALE then 1 else 3)),
      read_scanlines = (\<lambda>cinfo scanlines max_lines. Returns 1),
      read_raw_data = (\<lambda>cinfo planes max_lines. Returns 16),
      finish_decompress = (\<lambda>cinfo. Returns True)\<rparr>"


text \<open>A caller's \<open>DecodeInfo\<close> before the call, and the sample decompressor after the header.\<close>

definition sample_info :: DecodeInfo where
  "sample_info = \<lparr>width = - 1, height = - 1, components = - 1, colorSpace = - 1\<rparr>"

definition sample_header_read :: jpeg_decompress_struct where
  "sample_header_read =
     \<lparr>src = Some sample_source, d_image_width = 16, d_image_height = 16, num_components = 1,
      jpeg_color_space = JCS_GRAYSCALE, out_color_space = JCS_GRAYSCALE, raw_data_out = False,
      output_width = 0, output_height = 0, output_components = 0, output_scanline = 0,
      call_record = [Jpeg_create_decompress, Jpeg_read_header]\<rparr>"

section \<open>Properties\<close>


subsection \<open>The row pointers of an encoding batch\<close>






subsection \<open>The row pointers of a decoding batch\<close>











text \<open>
  Read as integers: when the Y plane's size fits an \<open>unsigned int\<close>, no product of the
  loop wraps, and the offsets of Claim C3 are \<open>(s + i) * width\<close>, \<open>width * height\<close> and
  \<open>((s + i) div 2) * (width div 2)\<close> themselves.
\<close>

lemma unat_ucast_up32:
  "unat (ucast (x :: 32 word) :: 64 word) = unat x"
proof -
  have "unat x < 2 ^ 64"
    using unsigned_less [of x, where ?'a = nat] by (simp add: order_less_trans [of _ "2 ^ 32"])
  then show ?thesis
    by (simp add: unsigned_ucast_eq take_bit_nat_eq_self)
qed

lemma encode_offsets_in_integers:
  fixes s h w :: JDIMENSION
  assumes fit: "unat w * unat h < 2 ^ 32" and row: "unat s + i < unat h"
  shows "unat (ucast ((s + of_nat i) * w) :: byte_ptr) = (unat s + i) * unat w"
    and "unat (ucast (w * h) :: byte_ptr) = unat w * unat h"
    and "unat (ucast (((s + of_nat i) div 2) * (w div 2)) :: byte_ptr) =
           ((unat s + i) div 2) * (unat w div 2)"
proof -
  have hb: "unat h < 2 ^ 32" using unsigned_less [of h] by simp
  have si: "unat (s + of_nat i) = unat s + i"
  proof -
    have "unat (s + of_nat i) = (unat s + i) mod 2 ^ 32"
      by (simp add: unat_word_ariths unat_of_nat mod_add_right_eq)
    then show ?thesis using row hb by simp
  qed
  have le: "(unat s + i) * unat w \<le> unat h * unat w"
    using row by (intro mult_right_mono) simp_all
  with fit have lt: "(unat s + i) * unat w < 2 ^ 32"
    by (simp only: mult.commute [of "unat w" "unat h"] le_less_trans)
  from lt si have "unat (s + of_nat i) * unat w < 2 ^ LENGTH(32)" by simp
  then have "unat ((s + of_nat i) * w) = unat (s + of_nat i) * unat w"
    by (rule unat_mult_lem [THEN iffD1])
  then show "unat (ucast ((s + of_nat i) * w) :: byte_ptr) = (unat s + i) * unat w"
    by (simp add: unat_ucast_up32 si)
  from fit have "unat w * unat h < 2 ^ LENGTH(32)" by simp
  then have "unat (w * h) = unat w * unat h"
    by (rule unat_mult_lem [THEN iffD1])
  then show "unat (ucast (w * h) :: byte_ptr) = unat w * unat h"
    by (simp add: unat_ucast_up32)
  have "((unat s + i) div 2) * (unat w div 2) \<le> (unat s + i) * unat w"
    by (intro mult_mono) simp_all
  with lt have "unat ((s + of_nat i) div 2) * unat (w div 2) < 2 ^ LENGTH(32)"
    by (simp add: unat_div si)
  then have "unat (((s + of_nat i) div 2) * (w div 2)) = unat ((s + of_nat i) div 2) * unat (w div 2)"
    by (rule unat_mult_lem [THEN iffD1])
  then show "unat (ucast (((s + of_nat i) div 2) * (w div 2)) :: byte_ptr) =
           ((unat s + i) div 2) * (unat w div 2)"
    by (simp add: unat_ucast_up32 unat_div si)
qed

subsection \<open>The destination adapter and the encoder\<close>

lemma sample_emit_bytes_numeral:
  "sample_emit_bytes cinfo (numeral k) cursor remaining =
     (if remaining - 1 = 0 \<and> \<not> fst (empty_output_buffer cinfo)
      then Error_exit
      else sample_emit_bytes cinfo (pred_numeral k) (cursor + 1) (remaining - 1))"
  "sample_emit_bytes cinfo 1 cursor remaining =
     (if remaining - 1 = 0 \<and> \<not> fst (empty_output_buffer cinfo)
      then Error_exit
      else Returns (cursor + 1, remaining - 1))"
  by (simp_all add: numeral_eq_Suc)

lemmas run_defs = sample_encoder_def Encode_def YuvEncoder_new_def sample_compressor_def sample_dest_block_def
    sample_emit_def jpeg_memory_dest_def empty_output_buffer_def sample_emit_bytes_numeral
    jpeg_create_compress_def jpeg_set_defaults_def jpeg_set_quality_def jpeg_start_compress_def
    call_dest_method_def init_destination_def encode_loop.simps jpeg_write_raw_data_def after_write_def
    jpeg_finish_compress_def term_destination_def Let_def SetMode_def JDCT_FASTEST_def

lemma sample_run:
  "Encode sample_compressor (YuvEncoder_new sample_compressor 16 16 80 1000) 4096 8192 100 =
   Some (Inr (12,
        \<lparr>dest = Some \<lparr>pub = \<lparr>next_output_byte = 8204, free_in_buffer = 88,
                  init_destination_ptr = Init_destination,
                  empty_output_buffer_ptr = Empty_output_buffer,
                  term_destination_ptr = Term_destination\<rparr>,
               buffer = 8192, buffer_size = 100, data_size = 12\<rparr>,
           adapter_blocks = 1, image_width = 16, image_height = 16,
           input_components = 3, in_color_space = JCS_YCbCr,
           raw_data_in = True, dct_method = JDCT_ISLOW,
           comp_info = [(2, 2), (1, 1), (1, 1)],
           quality_setting = Some (80, False), next_scanline = 16\<rparr>))"
  by (simp add: run_defs)

text \<open>The constructor leaves an adapter with the wrapper's methods bound; the setters
  keep it.\<close>

lemma YuvEncoder_new_adapter:
  "\<exists>d. dest (YuvEncoder_new eng w h quality bufferSize) = Some d \<and> wrapper_methods d \<and>
       buffer d = 0 \<and> buffer_size d = scast bufferSize"
  by (simp add: YuvEncoder_new_def jpeg_memory_dest_def jpeg_create_compress_def
        jpeg_set_defaults_def jpeg_set_quality_def wrapper_methods_def Let_def)

lemma setters_keep_adapter:
  "dest (SetMode enc mode) = dest enc" "dest (SetQuality enc quality) = dest enc"
  by (simp_all add: SetMode_def SetQuality_def jpeg_set_quality_def)

lemma init_destination_cleared:
  "init_destination c = Inr c' \<Longrightarrow> per_call_cleared c' = per_call_cleared c"
  by (auto simp: init_destination_def per_call_cleared_def split: option.splits)

lemma term_destination_cleared:
  "term_destination c = Inr c' \<Longrightarrow> per_call_cleared c' = per_call_cleared c"
  by (auto simp: term_destination_def per_call_cleared_def split: option.splits)

lemma call_dest_method_cleared:
  "call_dest_method m c = Inr c' \<Longrightarrow> per_call_cleared c' = per_call_cleared c"
  by (cases m)
     (auto simp: call_dest_method_def empty_output_buffer_def
           dest: init_destination_cleared term_destination_cleared)

lemma after_write_cleared:
  "after_write c r = Inr c' \<Longrightarrow> per_call_cleared c' = per_call_cleared c"
  by (auto simp: after_write_def per_call_cleared_def split: engine_result.splits option.splits)

lemma jpeg_start_compress_cleared:
  "jpeg_start_compress eng c = Inr c' \<Longrightarrow> per_call_cleared c' = per_call_cleared c"
proof -
  assume a: "jpeg_start_compress eng c = Inr c'"
  then obtain d c1 d1 cursor remaining where "dest c = Some d"
    and m: "call_dest_method (init_destination_ptr (pub d)) c = Inr c1"
    and d1: "dest c1 = Some d1"
    and c': "c' = c1\<lparr>next_scanline := 0,
                       dest := Some (d1\<lparr>pub := (pub d1)\<lparr>next_output_byte := cursor,
                                                        free_in_buffer := remaining\<rparr>\<rparr>)\<rparr>"
    by (auto simp: jpeg_start_compress_def
             split: option.splits sum.splits engine_result.splits)
  from call_dest_method_cleared [OF m] c' d1 show ?thesis
    by (simp add: per_call_cleared_def)
qed

lemma jpeg_finish_compress_cleared:
  "jpeg_finish_compress eng c = Inr c' \<Longrightarrow> per_call_cleared c' = per_call_cleared c"
proof -
  assume a: "jpeg_finish_compress eng c = Inr c'"
  then obtain d cursor remaining where d: "dest c = Some d"
    and m: "call_dest_method (term_destination_ptr (pub d))
              (c\<lparr>dest := Some (d\<lparr>pub := (pub d)\<lparr>next_output_byte := cursor,
                                                   free_in_buffer := remaining\<rparr>\<rparr>)\<rparr>) = Inr c'"
    by (auto simp: jpeg_finish_compress_def split: engine_result.splits option.splits)
  from call_dest_method_cleared [OF m] d show ?thesis
    by (simp add: per_call_cleared_def)
qed

lemma encode_loop_cleared:
  assumes "encode_loop eng w Y U V c = Some r"
  shows "\<forall>c'. r = Inr c' \<longrightarrow> per_call_cleared c' = per_call_cleared c"
proof (rule encode_loop.raw_induct [OF _ assms])
  fix loop eng w Y U V c r
  assume IH: "\<And>eng w Y U V c r. loop eng w Y U V c = Some r \<Longrightarrow>
                 \<forall>c'. r = Inr c' \<longrightarrow> per_call_cleared c' = per_call_cleared c"
    and body: "(if next_scanline c < image_height c
      then (case jpeg_write_raw_data eng c
                   (encode_rows (next_scanline c) (image_height c) w Y U V 0
                      (unassigned 16, unassigned 8, unassigned 8)) 16 of
              Inl e \<Rightarrow> Some (Inl e)
            | Inr cinfo' \<Rightarrow> loop eng w Y U V cinfo')
      else Some (Inr c)) = Some r"
  show "\<forall>c'. r = Inr c' \<longrightarrow> per_call_cleared c' = per_call_cleared c"
  proof (cases "next_scanline c < image_height c")
    case False
    with body show ?thesis by auto
  next
    case True
    show ?thesis
    proof (cases "jpeg_write_raw_data eng c
                   (encode_rows (next_scanline c) (image_height c) w Y U V 0
                      (unassigned 16, unassigned 8, unassigned 8)) 16")
      case (Inl e)
      with True body show ?thesis by auto
    next
      case (Inr c1)
      then have "per_call_cleared c1 = per_call_cleared c"
        by (auto simp: jpeg_write_raw_data_def dest: after_write_cleared)
      moreover from True Inr body have "loop eng w Y U V c1 = Some r" by simp
      ultimately show ?thesis using IH by metis
    qed
  qed
qed

lemma Encode_cleared:
  assumes "Encode eng enc data dst cap = Some (Inr (n, enc'))"
  shows "per_call_cleared enc' =
         per_call_cleared (jpeg_memory_dest (fresh_dest_block eng) enc dst cap)"
proof -
  let ?c0 = "jpeg_memory_dest (fresh_dest_block eng) enc dst cap"
  from assms obtain c1 where s: "jpeg_start_compress eng ?c0 = Inr c1"
    by (auto simp: Encode_def split: sum.splits)
  let ?w = "image_width c1" and ?h = "image_height c1"
  let ?l = "encode_loop eng ?w data (data + ucast (?w * ?h))
              (data + ucast (?w * ?h) + ucast (?w * ?h) div 4) c1"
  from assms s obtain c2 where l: "?l = Some (Inr c2)"
    by (auto simp: Encode_def Let_def split: sum.splits option.splits)
  from assms s l have f: "jpeg_finish_compress eng c2 = Inr enc'"
    by (auto simp: Encode_def Let_def split: sum.splits option.splits)
  from jpeg_start_compress_cleared [OF s] encode_loop_cleared [OF l]
       jpeg_finish_compress_cleared [OF f]
  show ?thesis by simp
qed


lemma cleared_eqD:
  assumes "per_call_cleared a = per_call_cleared b" and "dest b = Some db"
  shows "\<exists>da. dest a = Some da \<and> buffer da = buffer db \<and> buffer_size da = buffer_size db \<and>
           init_destination_ptr (pub da) = init_destination_ptr (pub db) \<and>
           empty_output_buffer_ptr (pub da) = empty_output_buffer_ptr (pub db) \<and>
           term_destination_ptr (pub da) = term_destination_ptr (pub db)"
proof -
  from assms(1) have "dest (per_call_cleared a) = dest (per_call_cleared b)" by simp
  with assms(2) obtain da where da: "dest a = Some da"
    and eq: "da\<lparr>pub := (pub da)\<lparr>next_output_byte := 0, free_in_buffer := 0\<rparr>, data_size := 0\<rparr> =
             db\<lparr>pub := (pub db)\<lparr>next_output_byte := 0, free_in_buffer := 0\<rparr>, data_size := 0\<rparr>"
    by (cases "dest a") (auto simp: per_call_cleared_def)
  from eq have "buffer (da\<lparr>pub := (pub da)\<lparr>next_output_byte := 0, free_in_buffer := 0\<rparr>, data_size := 0\<rparr>) =
             buffer (db\<lparr>pub := (pub db)\<lparr>next_output_byte := 0, free_in_buffer := 0\<rparr>, data_size := 0\<rparr>)"
    "buffer_size (da\<lparr>pub := (pub da)\<lparr>next_output_byte := 0, free_in_buffer := 0\<rparr>, data_size := 0\<rparr>) =
     buffer_size (db\<lparr>pub := (pub db)\<lparr>next_output_byte := 0, free_in_buffer := 0\<rparr>, data_size := 0\<rparr>)"
    "pub (da\<lparr>pub := (pub da)\<lparr>next_output_byte := 0, free_in_buffer := 0\<rparr>, data_size := 0\<rparr>) =
     pub (db\<lparr>pub := (pub db)\<lparr>next_output_byte := 0, free_in_buffer := 0\<rparr>, data_size := 0\<rparr>)"
    by simp_all
  then have b: "buffer da = buffer db" "buffer_size da = buffer_size db"
    and p: "(pub da)\<lparr>next_output_byte := 0, free_in_buffer := 0\<rparr> =
            (pub db)\<lparr>next_output_byte := 0, free_in_buffer := 0\<rparr>"
    by simp_all
  from p have "init_destination_ptr ((pub da)\<lparr>next_output_byte := 0, free_in_buffer := 0\<rparr>) =
               init_destination_ptr ((pub db)\<lparr>next_output_byte := 0, free_in_buffer := 0\<rparr>)"
    "empty_output_buffer_ptr ((pub da)\<lparr>next_output_byte := 0, free_in_buffer := 0\<rparr>) =
     empty_output_buffer_ptr ((pub db)\<lparr>next_output_byte := 0, free_in_buffer := 0\<rparr>)"
    "term_destination_ptr ((pub da)\<lparr>next_output_byte := 0, free_in_buffer := 0\<rparr>) =
     term_destination_ptr ((pub db)\<lparr>next_output_byte := 0, free_in_buffer := 0\<rparr>)"
    by simp_all
  then have "init_destination_ptr (pub da) = init_destination_ptr (pub db)"
    "empty_output_buffer_ptr (pub da) = empty_output_buffer_ptr (pub db)"
    "term_destination_ptr (pub da) = term_destination_ptr (pub db)"
    by simp_all
  with b show ?thesis using da by simp
qed

lemma cleared_fieldsD:
  assumes "per_call_cleared a = per_call_cleared b"
  shows "dct_method a = dct_method b" and "adapter_blocks a = adapter_blocks b"
    and "image_width a = image_width b" and "image_height a = image_height b"
    and "quality_setting a = quality_setting b" and "comp_info a = comp_info b"
    and "raw_data_in a = raw_data_in b" and "in_color_space a = in_color_space b"
    and "input_components a = input_components b"
proof -
  have "dct_method (per_call_cleared a) = dct_method (per_call_cleared b)"
    "adapter_blocks (per_call_cleared a) = adapter_blocks (per_call_cleared b)"
    "image_width (per_call_cleared a) = image_width (per_call_cleared b)"
    "image_height (per_call_cleared a) = image_height (per_call_cleared b)"
    "quality_setting (per_call_cleared a) = quality_setting (per_call_cleared b)"
    "comp_info (per_call_cleared a) = comp_info (per_call_cleared b)"
    "raw_data_in (per_call_cleared a) = raw_data_in (per_call_cleared b)"
    "in_color_space (per_call_cleared a) = in_color_space (per_call_cleared b)"
    "input_components (per_call_cleared a) = input_components (per_call_cleared b)"
    using assms by simp_all
  then show "dct_method a = dct_method b" and "adapter_blocks a = adapter_blocks b"
    and "image_width a = image_width b" and "image_height a = image_height b"
    and "quality_setting a = quality_setting b" and "comp_info a = comp_info b"
    and "raw_data_in a = raw_data_in b" and "in_color_space a = in_color_space b"
    and "input_components a = input_components b"
    by (simp_all add: per_call_cleared_def)
qed


lemma Encode_returnsD:
  assumes "Encode eng enc data dst cap = Some (Inr (n, enc'))"
  shows "\<exists>c1 c2 d'.
           jpeg_start_compress eng (jpeg_memory_dest (fresh_dest_block eng) enc dst cap) = Inr c1 \<and>
           per_call_cleared c2 = per_call_cleared c1 \<and>
           jpeg_finish_compress eng c2 = Inr enc' \<and>
           dest enc' = Some d' \<and> n = data_size d'"
proof -
  let ?c0 = "jpeg_memory_dest (fresh_dest_block eng) enc dst cap"
  from assms obtain c1 where s: "jpeg_start_compress eng ?c0 = Inr c1"
    by (auto simp: Encode_def split: sum.splits)
  let ?w = "image_width c1" and ?h = "image_height c1"
  let ?l = "encode_loop eng ?w data (data + ucast (?w * ?h))
              (data + ucast (?w * ?h) + ucast (?w * ?h) div 4) c1"
  from assms s obtain c2 where l: "?l = Some (Inr c2)"
    by (auto simp: Encode_def Let_def split: sum.splits option.splits)
  from assms s l have f: "jpeg_finish_compress eng c2 = Inr enc'"
    by (auto simp: Encode_def Let_def split: sum.splits option.splits)
  from assms s l f obtain d' where "dest enc' = Some d'" "n = data_size d'"
    by (auto simp: Encode_def Let_def split: sum.splits option.splits)
  with s f encode_loop_cleared [OF l] show ?thesis by blast
qed





lemma sample_encoder_dest:
  "dest sample_encoder =
     Some \<lparr>pub = \<lparr>next_output_byte = 0, free_in_buffer = 0,
                  init_destination_ptr = Init_destination,
                  empty_output_buffer_ptr = Empty_output_buffer,
                  term_destination_ptr = Term_destination\<rparr>,
           buffer = 0, buffer_size = 1000, data_size = 0\<rparr>"
  by (simp add: run_defs)


text \<open>
  Claim C7. Binding a new buffer and capacity on a compressor that already has an adapter
  keeps that adapter (no block is allocated) and changes its buffer pointer, its
  capacity and its written size (now zero) and nothing else: the public part, with the
  three method slots, is as before, and so is the rest of the compressor.
  \<open>YuvEncoder::Encode\<close> starts compression on the compressor so rebound to the buffer it
  was given: if that start fails the call fails with it, and a call that returns has
  started there and leaves the same adapter bound to that buffer and capacity.
\<close>

theorem rebinding_reuses_adapter:
  assumes "dest cinfo = Some d"
  shows "dest (jpeg_memory_dest fresh cinfo buf sz) =
           Some (d\<lparr>buffer := buf, buffer_size := sz, data_size := 0\<rparr>) \<and>
         pub (d\<lparr>buffer := buf, buffer_size := sz, data_size := 0\<rparr>) = pub d \<and>
         adapter_blocks (jpeg_memory_dest fresh cinfo buf sz) = adapter_blocks cinfo \<and>
         (jpeg_memory_dest fresh cinfo buf sz)\<lparr>dest := dest cinfo\<rparr> = cinfo \<and>
         (\<forall>e. jpeg_start_compress eng
                 (jpeg_memory_dest (fresh_dest_block eng) cinfo dstBuffer dstBufferSize) = Inl e \<longrightarrow>
              Encode eng cinfo data dstBuffer dstBufferSize = Some (Inl e)) \<and>
         (\<forall>n enc'. Encode eng cinfo data dstBuffer dstBufferSize = Some (Inr (n, enc')) \<longrightarrow>
            (\<exists>c. jpeg_start_compress eng
                   (jpeg_memory_dest (fresh_dest_block eng) cinfo dstBuffer dstBufferSize) = Inr c) \<and>
            adapter_blocks enc' = adapter_blocks cinfo \<and>
            (\<exists>d'. dest enc' = Some d' \<and> buffer d' = dstBuffer \<and> buffer_size d' = dstBufferSize \<and>
                  init_destination_ptr (pub d') = init_destination_ptr (pub d) \<and>
                  empty_output_buffer_ptr (pub d') = empty_output_buffer_ptr (pub d) \<and>
                  term_destination_ptr (pub d') = term_destination_ptr (pub d)))"
proof (intro conjI allI impI)
  show "dest (jpeg_memory_dest fresh cinfo buf sz) =
           Some (d\<lparr>buffer := buf, buffer_size := sz, data_size := 0\<rparr>)"
    using assms by (simp add: jpeg_memory_dest_def)
  show "pub (d\<lparr>buffer := buf, buffer_size := sz, data_size := 0\<rparr>) = pub d" by simp
  show "adapter_blocks (jpeg_memory_dest fresh cinfo buf sz) = adapter_blocks cinfo"
    using assms by (simp add: jpeg_memory_dest_def)
  show "(jpeg_memory_dest fresh cinfo buf sz)\<lparr>dest := dest cinfo\<rparr> = cinfo"
    using assms by (simp add: jpeg_memory_dest_def)
next
  fix e
  assume "jpeg_start_compress eng
            (jpeg_memory_dest (fresh_dest_block eng) cinfo dstBuffer dstBufferSize) = Inl e"
  then show "Encode eng cinfo data dstBuffer dstBufferSize = Some (Inl e)"
    by (simp add: Encode_def)
next
  fix n enc'
  assume run: "Encode eng cinfo data dstBuffer dstBufferSize = Some (Inr (n, enc'))"
  let ?c0 = "jpeg_memory_dest (fresh_dest_block eng) cinfo dstBuffer dstBufferSize"
  from Encode_returnsD [OF run]
  show "\<exists>c. jpeg_start_compress eng ?c0 = Inr c" by blast
  have d0: "dest ?c0 = Some (d\<lparr>buffer := dstBuffer, buffer_size := dstBufferSize, data_size := 0\<rparr>)"
    using assms by (simp add: jpeg_memory_dest_def)
  have b0: "adapter_blocks ?c0 = adapter_blocks cinfo"
    using assms by (simp add: jpeg_memory_dest_def)
  from cleared_fieldsD(2) [OF Encode_cleared [OF run]] b0
  show "adapter_blocks enc' = adapter_blocks cinfo" by simp
  from cleared_eqD [OF Encode_cleared [OF run] d0]
  show "\<exists>d'. dest enc' = Some d' \<and> buffer d' = dstBuffer \<and> buffer_size d' = dstBufferSize \<and>
                  init_destination_ptr (pub d') = init_destination_ptr (pub d) \<and>
                  empty_output_buffer_ptr (pub d') = empty_output_buffer_ptr (pub d) \<and>
                  term_destination_ptr (pub d') = term_destination_ptr (pub d)"
    by auto
qed

theorem rebinding_reuses_adapter_witness:
  "dest sample_encoder =
     Some \<lparr>pub = \<lparr>next_output_byte = 0, free_in_buffer = 0,
                  init_destination_ptr = Init_destination,
                  empty_output_buffer_ptr = Empty_output_buffer,
                  term_destination_ptr = Term_destination\<rparr>,
           buffer = 0, buffer_size = 1000, data_size = 0\<rparr> \<and>
   dest (jpeg_memory_dest sample_dest_block sample_encoder 8192 100) =
     Some \<lparr>pub = \<lparr>next_output_byte = 0, free_in_buffer = 0,
                  init_destination_ptr = Init_destination,
                  empty_output_buffer_ptr = Empty_output_buffer,
                  term_destination_ptr = Term_destination\<rparr>,
           buffer = 8192, buffer_size = 100, data_size = 0\<rparr> \<and>
   adapter_blocks (jpeg_memory_dest sample_dest_block sample_encoder 8192 100) = 1 \<and>
   adapter_blocks sample_encoder = 1 \<and>
   jpeg_start_compress sample_compressor
     (jpeg_memory_dest (fresh_dest_block sample_compressor)
        (sample_encoder\<lparr>image_width := 0\<rparr>) 8192 100) = Inl ErrorExit \<and>
   Encode sample_compressor (sample_encoder\<lparr>image_width := 0\<rparr>) 4096 8192 100 =
     Some (Inl ErrorExit) \<and>
   (\<exists>enc' d'. Encode sample_compressor sample_encoder 4096 8192 100 = Some (Inr (12, enc')) \<and>
       adapter_blocks enc' = 1 \<and> dest enc' = Some d' \<and> buffer d' = 8192 \<and>
       buffer_size d' = 100 \<and> term_destination_ptr (pub d') = Term_destination)"
proof -
  have e: "jpeg_start_compress sample_compressor
     (jpeg_memory_dest (fresh_dest_block sample_compressor)
        (sample_encoder\<lparr>image_width := 0\<rparr>) 8192 100) = Inl ErrorExit"
    by (simp add: run_defs)
  have d: "dest (sample_encoder\<lparr>image_width := 0\<rparr>) =
     Some \<lparr>pub = \<lparr>next_output_byte = 0, free_in_buffer = 0,
                  init_destination_ptr = Init_destination,
                  empty_output_buffer_ptr = Empty_output_buffer,
                  term_destination_ptr = Term_destination\<rparr>,
           buffer = 0, buffer_size = 1000, data_size = 0\<rparr>"
    by (simp add: sample_encoder_dest)
  have b: "adapter_blocks sample_encoder = 1" by (simp add: run_defs)
  show ?thesis
    using rebinding_reuses_adapter [OF sample_encoder_dest,
            where fresh = sample_dest_block and buf = 8192 and sz = 100
              and eng = sample_compressor and data = 4096 and dstBuffer = 8192
              and dstBufferSize = 100]
      rebinding_reuses_adapter [OF d,
            where fresh = sample_dest_block and buf = 8192 and sz = 100
              and eng = sample_compressor and data = 4096 and dstBuffer = 8192
              and dstBufferSize = 100]
      sample_run e b
    by (simp add: sample_encoder_dest sample_encoder_def [symmetric])
qed

text \<open>
  Claim C9. \<open>SetMode\<close> with argument 0 selects \<open>JDCT_ISLOW\<close>, with any other argument
  \<open>JDCT_FASTEST\<close>; it changes nothing else, and an \<open>Encode\<close> on the session leaves the
  selection in place for the encodes after it.
\<close>

theorem SetMode_selects_dct_method:
  "dct_method (SetMode enc 0) = JDCT_ISLOW \<and>
   (mode \<noteq> 0 \<longrightarrow> dct_method (SetMode enc mode) = JDCT_FASTEST) \<and>
   SetMode enc mode = enc\<lparr>dct_method := dct_method (SetMode enc mode)\<rparr> \<and>
   (\<forall>n enc'. Encode eng (SetMode enc mode) data dstBuffer dstBufferSize = Some (Inr (n, enc')) \<longrightarrow>
      dct_method enc' = dct_method (SetMode enc mode))"
proof (intro conjI allI impI)
  fix n enc'
  assume run: "Encode eng (SetMode enc mode) data dstBuffer dstBufferSize = Some (Inr (n, enc'))"
  have "dct_method (jpeg_memory_dest (fresh_dest_block eng) (SetMode enc mode) dstBuffer dstBufferSize)
          = dct_method (SetMode enc mode)"
    by (simp add: jpeg_memory_dest_def split: option.splits)
  with cleared_fieldsD(1) [OF Encode_cleared [OF run]]
  show "dct_method enc' = dct_method (SetMode enc mode)" by simp
qed (simp_all add: SetMode_def)

theorem SetMode_selects_dct_method_witness:
  "(1 :: cint) \<noteq> 0 \<and> dct_method (SetMode sample_encoder 1) = JDCT_FASTEST \<and>
   dct_method (SetMode sample_encoder 0) = JDCT_ISLOW \<and>
   (\<exists>n enc'. Encode sample_compressor (SetMode sample_encoder 1) 4096 8192 100 = Some (Inr (n, enc')) \<and>
       dct_method enc' = JDCT_FASTEST)"
proof -
  have "\<exists>n enc'. Encode sample_compressor (SetMode sample_encoder 1) 4096 8192 100 = Some (Inr (n, enc'))"
    by (simp add: run_defs)
  then show ?thesis
    using SetMode_selects_dct_method [where enc = sample_encoder and mode = 1
            and eng = sample_compressor and data = 4096 and dstBuffer = 8192
            and dstBufferSize = 100]
    by auto
qed

subsection \<open>The source adapter\<close>




subsection \<open>Overflow while encoding\<close>

lemma empty_output_buffer_refuses:
  "fst (empty_output_buffer cinfo) = False" "fst (snd (empty_output_buffer cinfo)) = cinfo"
  by (simp_all add: empty_output_buffer_def)

lemma Encode_passes_on_error_exit:
  assumes "dest enc = Some d" and "wrapper_methods d"
    and "\<And>c. start_compress eng c = Error_exit"
  shows "Encode eng enc data dstBuffer dstBufferSize = Some (Inl ErrorExit)"
  using assms
  by (simp add: Encode_def jpeg_start_compress_def jpeg_memory_dest_def call_dest_method_def
        init_destination_def wrapper_methods_def)

text \<open>
  Claim C4 fails on the code. \<open>Encode\<close> on the sample session with a frame of 16 by 16
  and a destination of capacity 0: \<open>init_destination\<close> hands the engine a remaining
  capacity of 0, the first byte is stored before the capacity is decremented and
  tested, the counter wraps below 0 and never reaches it, and the overflow callback is
  never asked. The call returns 12, the length of the stream, not 0, with the cursor 12
  bytes past the start of a buffer that has room for none. With a capacity of 5 the
  counter does reach 0 in the first batch: the callback answers \<open>FALSE\<close>, the engine takes
  the error exit, and the call does not return 0 either, it does not return.
\<close>

theorem Encode_capacity_zero_overruns:
  "Encode sample_compressor sample_encoder 4096 8192 0 =
     Some (Inr (12,
        \<lparr>dest = Some \<lparr>pub = \<lparr>next_output_byte = 8204, free_in_buffer = - 12,
                  init_destination_ptr = Init_destination,
                  empty_output_buffer_ptr = Empty_output_buffer,
                  term_destination_ptr = Term_destination\<rparr>,
               buffer = 8192, buffer_size = 0, data_size = 12\<rparr>,
           adapter_blocks = 1, image_width = 16, image_height = 16,
           input_components = 3, in_color_space = JCS_YCbCr,
           raw_data_in = True, dct_method = JDCT_ISLOW,
           comp_info = [(2, 2), (1, 1), (1, 1)],
           quality_setting = Some (80, False), next_scanline = 16\<rparr>)) \<and>
   Encode sample_compressor sample_encoder 4096 8192 5 = Some (Inl ErrorExit)"
  by (simp add: run_defs)

subsection \<open>Decoding\<close>

lemmas decode_defs = DecodeToI420_def DecodeToGray_def GetJpegInfo_def decompressor_for_def
  sample_decompressor_def sample_source_def sample_info_def jpeg_create_decompress_def
  jpeg_memory_src_def jpeg_read_header_def jpeg_start_decompress_def jpeg_read_scanlines_def
  jpeg_read_raw_data_def jpeg_finish_decompress_def jpeg_abort_decompress_def
  jpeg_destroy_decompress_def called_def JPEG_HEADER_OK_def JPEG_SUSPENDED_def Let_def
  int_div_def

text \<open>
  Claim C1, as stated, on the sample engine with an output buffer of capacity 0: the
  call returns 0 after aborting, and the caller's \<open>DecodeInfo\<close> is not what it was: it
  holds the dimensions, the component count and the colour space.
\<close>

theorem insufficient_capacity_info_counterexample:
  "DecodeToI420 sample_decompressor 4096 64 8192 0 sample_info =
     Some (Inr (0, \<lparr>width = 16, height = 16, components = 3, colorSpace = 3\<rparr>,
                [Jpeg_create_decompress, Jpeg_read_header, Jpeg_start_decompress,
                 Jpeg_abort_decompress, Jpeg_destroy_decompress])) \<and>
   \<lparr>width = 16, height = 16, components = 3, colorSpace = 3\<rparr> \<noteq> sample_info"
  by (simp add: decode_defs)

lemma sample_I420_run:
  "DecodeToI420 sample_decompressor 4096 64 8192 384 sample_info =
     Some (Inr (384, \<lparr>width = 16, height = 16, components = 3, colorSpace = 3\<rparr>,
                [Jpeg_create_decompress, Jpeg_read_header, Jpeg_start_decompress,
                 Jpeg_read_raw_data, Jpeg_finish_decompress, Jpeg_destroy_decompress]))"
  by (simp add: decode_defs i420_loop.simps)


lemma read_header_record:
  assumes "jpeg_read_header eng (decompressor_for eng jpegData jpegSize) True = Inr (status, c1)"
  shows "call_record c1 = [Jpeg_create_decompress, Jpeg_read_header]"
  using assms
  by (auto simp: jpeg_read_header_def decompressor_for_def jpeg_create_decompress_def
        called_def Let_def split: engine_result.splits if_splits)

lemma start_decompress_fields:
  assumes "jpeg_start_decompress eng c = Inr c2"
  shows "call_record c2 = call_record c @ [Jpeg_start_decompress]"
    and "out_color_space c2 = out_color_space c"
  using assms
  by (auto simp: jpeg_start_decompress_def called_def split: engine_result.splits)

text \<open>
  Claim C1, amended. When the header has been read, decompression has started and the
  required size exceeds the output capacity, \<open>DecodeToGray\<close> and \<open>DecodeToI420\<close> abort the
  decompression and destroy the decompressor without reading a single row, and return
  0; the caller's \<open>DecodeInfo\<close> has by then been filled with the output width, height,
  component count and colour space.
\<close>

theorem insufficient_capacity_aborts:
  "(jpeg_read_header eng (decompressor_for eng jpegData jpegSize) True = Inr (JPEG_HEADER_OK, c1) \<and>
    jpeg_start_decompress eng (c1\<lparr>out_color_space := JCS_GRAYSCALE\<rparr>) = Inr c2 \<and>
    outputSize < ucast (output_width c2 * output_components c2) * ucast (output_height c2) \<longrightarrow>
    DecodeToGray eng jpegData jpegSize out outputSize info =
      Some (Inr (0,
                 \<lparr>width = output_width c2, height = output_height c2,
                  components = output_components c2,
                  colorSpace = J_COLOR_SPACE_int JCS_GRAYSCALE\<rparr>,
                 [Jpeg_create_decompress, Jpeg_read_header, Jpeg_start_decompress,
                  Jpeg_abort_decompress, Jpeg_destroy_decompress]))) \<and>
   (jpeg_read_header eng (decompressor_for eng jpegData jpegSize) True = Inr (JPEG_HEADER_OK, c1) \<and>
    jpeg_start_decompress eng (c1\<lparr>raw_data_out := True, out_color_space := JCS_YCbCr\<rparr>) = Inr c3 \<and>
    outputSize < scast (output_width c3 * output_height c3) +
                 scast (output_width c3 * output_height c3) div 4 +
                 scast (output_width c3 * output_height c3) div 4 \<longrightarrow>
    DecodeToI420 eng jpegData jpegSize out outputSize info =
      Some (Inr (0,
                 \<lparr>width = output_width c3, height = output_height c3,
                  components = 3, colorSpace = J_COLOR_SPACE_int JCS_YCbCr\<rparr>,
                 [Jpeg_create_decompress, Jpeg_read_header, Jpeg_start_decompress,
                  Jpeg_abort_decompress, Jpeg_destroy_decompress])))"
proof (intro conjI impI)
  assume a: "jpeg_read_header eng (decompressor_for eng jpegData jpegSize) True = Inr (JPEG_HEADER_OK, c1) \<and>
    jpeg_start_decompress eng (c1\<lparr>out_color_space := JCS_GRAYSCALE\<rparr>) = Inr c2 \<and>
    outputSize < ucast (output_width c2 * output_components c2) * ucast (output_height c2)"
  then have h: "jpeg_read_header eng (decompressor_for eng jpegData jpegSize) True = Inr (JPEG_HEADER_OK, c1)"
    and s: "jpeg_start_decompress eng (c1\<lparr>out_color_space := JCS_GRAYSCALE\<rparr>) = Inr c2"
    and lt: "outputSize < ucast (output_width c2 * output_components c2) * ucast (output_height c2)"
    by simp_all
  have r: "call_record c2 = [Jpeg_create_decompress, Jpeg_read_header, Jpeg_start_decompress]"
    using start_decompress_fields(1) [OF s] read_header_record [OF h] by simp
  have o: "out_color_space c2 = JCS_GRAYSCALE"
    using start_decompress_fields(2) [OF s] by simp
  from h have h': "jpeg_read_header eng
      (jpeg_create_decompress\<lparr>src := Some (jpeg_memory_src (fresh_src_block eng)
         (src jpeg_create_decompress) jpegData jpegSize)\<rparr>) True = Inr (JPEG_HEADER_OK, c1)"
    by (simp add: decompressor_for_def Let_def)
  show "DecodeToGray eng jpegData jpegSize out outputSize info =
      Some (Inr (0,
                 \<lparr>width = output_width c2, height = output_height c2,
                  components = output_components c2,
                  colorSpace = J_COLOR_SPACE_int JCS_GRAYSCALE\<rparr>,
                 [Jpeg_create_decompress, Jpeg_read_header, Jpeg_start_decompress,
                  Jpeg_abort_decompress, Jpeg_destroy_decompress]))"
    using lt r o
    by (simp add: DecodeToGray_def Let_def h' s jpeg_abort_decompress_def
          jpeg_destroy_decompress_def called_def)
next
  assume a: "jpeg_read_header eng (decompressor_for eng jpegData jpegSize) True = Inr (JPEG_HEADER_OK, c1) \<and>
    jpeg_start_decompress eng (c1\<lparr>raw_data_out := True, out_color_space := JCS_YCbCr\<rparr>) = Inr c3 \<and>
    outputSize < scast (output_width c3 * output_height c3) +
                 scast (output_width c3 * output_height c3) div 4 +
                 scast (output_width c3 * output_height c3) div 4"
  then have h: "jpeg_read_header eng (decompressor_for eng jpegData jpegSize) True = Inr (JPEG_HEADER_OK, c1)"
    and s: "jpeg_start_decompress eng (c1\<lparr>raw_data_out := True, out_color_space := JCS_YCbCr\<rparr>) = Inr c3"
    and lt: "outputSize < scast (output_width c3 * output_height c3) +
                 scast (output_width c3 * output_height c3) div 4 +
                 scast (output_width c3 * output_height c3) div 4"
    by simp_all
  have r: "call_record c3 = [Jpeg_create_decompress, Jpeg_read_header, Jpeg_start_decompress]"
    using start_decompress_fields(1) [OF s] read_header_record [OF h] by simp
  have o: "out_color_space c3 = JCS_YCbCr"
    using start_decompress_fields(2) [OF s] by simp
  from h have h': "jpeg_read_header eng
      (jpeg_create_decompress\<lparr>src := Some (jpeg_memory_src (fresh_src_block eng)
         (src jpeg_create_decompress) jpegData jpegSize)\<rparr>) True = Inr (JPEG_HEADER_OK, c1)"
    by (simp add: decompressor_for_def Let_def)
  show "DecodeToI420 eng jpegData jpegSize out outputSize info =
      Some (Inr (0,
                 \<lparr>width = output_width c3, height = output_height c3,
                  components = 3, colorSpace = J_COLOR_SPACE_int JCS_YCbCr\<rparr>,
                 [Jpeg_create_decompress, Jpeg_read_header, Jpeg_start_decompress,
                  Jpeg_abort_decompress, Jpeg_destroy_decompress]))"
    using lt r o
    by (simp add: DecodeToI420_def Let_def h' s jpeg_abort_decompress_def
          jpeg_destroy_decompress_def called_def)
qed


lemma sample_header:
  "jpeg_read_header sample_decompressor (decompressor_for sample_decompressor 4096 64) True =
     Inr (JPEG_HEADER_OK, sample_header_read)"
  by (simp add: decode_defs sample_header_read_def)

theorem insufficient_capacity_aborts_witness:
  "jpeg_read_header sample_decompressor (decompressor_for sample_decompressor 4096 64) True =
     Inr (JPEG_HEADER_OK, sample_header_read) \<and>
   jpeg_start_decompress sample_decompressor (sample_header_read\<lparr>out_color_space := JCS_GRAYSCALE\<rparr>) =
     Inr (called Jpeg_start_decompress
            (sample_header_read\<lparr>output_width := 16, output_height := 16,
                                 output_components := 1\<rparr>)) \<and>
   (255 :: ulong) < ucast ((16 :: JDIMENSION) * 1) * ucast (16 :: JDIMENSION) \<and>
   DecodeToGray sample_decompressor 4096 64 8192 255 sample_info =
     Some (Inr (0, \<lparr>width = 16, height = 16, components = 1, colorSpace = 1\<rparr>,
                [Jpeg_create_decompress, Jpeg_read_header, Jpeg_start_decompress,
                 Jpeg_abort_decompress, Jpeg_destroy_decompress])) \<and>
   jpeg_start_decompress sample_decompressor
     (sample_header_read\<lparr>raw_data_out := True, out_color_space := JCS_YCbCr\<rparr>) =
     Inr (called Jpeg_start_decompress
            (sample_header_read\<lparr>raw_data_out := True, out_color_space := JCS_YCbCr,
                                 output_width := 16, output_height := 16,
                                 output_components := 3\<rparr>)) \<and>
   DecodeToI420 sample_decompressor 4096 64 8192 383 sample_info =
     Some (Inr (0, \<lparr>width = 16, height = 16, components = 3, colorSpace = 3\<rparr>,
                [Jpeg_create_decompress, Jpeg_read_header, Jpeg_start_decompress,
                 Jpeg_abort_decompress, Jpeg_destroy_decompress]))"
proof -
  have g: "jpeg_start_decompress sample_decompressor (sample_header_read\<lparr>out_color_space := JCS_GRAYSCALE\<rparr>) =
     Inr (called Jpeg_start_decompress
            (sample_header_read\<lparr>output_width := 16, output_height := 16,
                                 output_components := 1\<rparr>))"
    by (simp add: jpeg_start_decompress_def sample_decompressor_def sample_header_read_def called_def)
  have y: "jpeg_start_decompress sample_decompressor
     (sample_header_read\<lparr>raw_data_out := True, out_color_space := JCS_YCbCr\<rparr>) =
     Inr (called Jpeg_start_decompress
            (sample_header_read\<lparr>raw_data_out := True, out_color_space := JCS_YCbCr,
                                 output_width := 16, output_height := 16,
                                 output_components := 3\<rparr>))"
    by (simp add: jpeg_start_decompress_def sample_decompressor_def sample_header_read_def called_def)
  show ?thesis
    using insufficient_capacity_aborts [where eng = sample_decompressor and jpegData = 4096
            and jpegSize = 64 and ?c1.0 = sample_header_read
            and ?c2.0 = "called Jpeg_start_decompress
                  (sample_header_read\<lparr>output_width := 16, output_height := 16,
                                       output_components := 1\<rparr>)"
            and ?c3.0 = "called Jpeg_start_decompress
                  (sample_header_read\<lparr>raw_data_out := True, out_color_space := JCS_YCbCr,
                                 output_width := 16, output_height := 16,
                                 output_components := 3\<rparr>)"
            and outputSize = 255 and out = 8192 and info = sample_info]
      insufficient_capacity_aborts [where eng = sample_decompressor and jpegData = 4096
            and jpegSize = 64 and ?c1.0 = sample_header_read
            and ?c2.0 = "called Jpeg_start_decompress
                  (sample_header_read\<lparr>output_width := 16, output_height := 16,
                                       output_components := 1\<rparr>)"
            and ?c3.0 = "called Jpeg_start_decompress
                  (sample_header_read\<lparr>raw_data_out := True, out_color_space := JCS_YCbCr,
                                 output_width := 16, output_height := 16,
                                 output_components := 3\<rparr>)"
            and outputSize = 383 and out = 8192 and info = sample_info]
      sample_header g y
    by (simp add: called_def sample_header_read_def)
qed




text \<open>
  Claim C10. Whenever \<open>DecodeToI420\<close> has read the header successfully and returns, the
  \<open>DecodeInfo\<close> it leaves reports 3 components and the colour space YCbCr, whatever
  component count and colour space the header announced.
\<close>

theorem DecodeToI420_reports_YCbCr:
  assumes "jpeg_read_header eng (decompressor_for eng jpegData jpegSize) True =
             Inr (JPEG_HEADER_OK, c1)"
    and "DecodeToI420 eng jpegData jpegSize out outputSize info = Some (Inr (n, info', calls))"
  shows "components info' = 3 \<and> colorSpace info' = J_COLOR_SPACE_int JCS_YCbCr"
proof -
  from assms(1) have h': "jpeg_read_header eng
      (jpeg_create_decompress\<lparr>src := Some (jpeg_memory_src (fresh_src_block eng)
         (src jpeg_create_decompress) jpegData jpegSize)\<rparr>) True = Inr (JPEG_HEADER_OK, c1)"
    by (simp add: decompressor_for_def Let_def)
  from assms(2) obtain c3 where
    s: "jpeg_start_decompress eng (c1\<lparr>raw_data_out := True, out_color_space := JCS_YCbCr\<rparr>) = Inr c3"
    by (auto simp: DecodeToI420_def Let_def h' split: sum.splits)
  have o: "out_color_space c3 = JCS_YCbCr"
    using start_decompress_fields(2) [OF s] by simp
  from assms(2) have "info' = info\<lparr>width := output_width c3, height := output_height c3,
      components := 3, colorSpace := J_COLOR_SPACE_int (out_color_space c3)\<rparr>"
    by (auto simp: DecodeToI420_def Let_def h' s split: sum.splits option.splits if_splits)
  with o show ?thesis by simp
qed

theorem DecodeToI420_reports_YCbCr_witness:
  "jpeg_read_header sample_decompressor (decompressor_for sample_decompressor 4096 64) True =
     Inr (JPEG_HEADER_OK, sample_header_read) \<and>
   num_components sample_header_read = 1 \<and> jpeg_color_space sample_header_read = JCS_GRAYSCALE \<and>
   DecodeToI420 sample_decompressor 4096 64 8192 384 sample_info =
     Some (Inr (384, \<lparr>width = 16, height = 16, components = 3, colorSpace = 3\<rparr>,
                [Jpeg_create_decompress, Jpeg_read_header, Jpeg_start_decompress,
                 Jpeg_read_raw_data, Jpeg_finish_decompress, Jpeg_destroy_decompress])) \<and>
   components \<lparr>width = 16, height = 16, components = 3, colorSpace = 3\<rparr> = 3 \<and>
   colorSpace \<lparr>width = 16, height = 16, components = 3, colorSpace = 3\<rparr> =
     J_COLOR_SPACE_int JCS_YCbCr"
  using DecodeToI420_reports_YCbCr [OF sample_header sample_I420_run] sample_header sample_I420_run
  by (simp add: sample_header_read_def)

subsection \<open>Calls that come back\<close>

text \<open>
  The loops of \<open>Encode\<close> and \<open>DecodeToI420\<close> are driven by the engine's scanline counter.
  With an engine whose every returning batch call moves the counter forward, the loops
  end: each call comes back with a value or fails, and none runs forever. An engine
  error exit while the header is read is passed on by \<open>GetJpegInfo\<close>, not turned into a
  status.
\<close>

lemma encode_loop_returns:
  assumes progress: "\<And>c planes l cursor remaining.
      write_raw_data eng c planes 16 = Returns (l, cursor, remaining) \<Longrightarrow>
      next_scanline c < next_scanline c + l"
  shows "\<exists>r. encode_loop eng w Y U V c = Some r"
proof (induction "2 ^ 32 - unat (next_scanline c)" arbitrary: c rule: less_induct)
  case less
  show ?case
  proof (cases "next_scanline c < image_height c")
    case False
    then show ?thesis by (subst encode_loop.simps) simp
  next
    case True
    let ?planes = "encode_rows (next_scanline c) (image_height c) w Y U V 0
                     (unassigned 16, unassigned 8, unassigned 8)"
    show ?thesis
    proof (cases "jpeg_write_raw_data eng c ?planes 16")
      case (Inl e)
      with True show ?thesis by (subst encode_loop.simps) simp
    next
      case (Inr c')
      then obtain l cursor remaining where
        w: "write_raw_data eng c ?planes 16 = Returns (l, cursor, remaining)"
        and n: "next_scanline c' = next_scanline c + l"
        by (auto simp: jpeg_write_raw_data_def after_write_def
                 split: engine_result.splits option.splits)
      from progress [OF w] n have "unat (next_scanline c) < unat (next_scanline c')"
        by (simp add: word_less_nat_alt)
      moreover have "unat (next_scanline c') < 2 ^ 32"
        using unsigned_less [of "next_scanline c'"] by simp
      ultimately have "2 ^ 32 - unat (next_scanline c') < 2 ^ 32 - unat (next_scanline c)"
        by simp
      from less [OF this] obtain r where "encode_loop eng w Y U V c' = Some r" by blast
      with True Inr show ?thesis by (subst encode_loop.simps) simp
    qed
  qed
qed

lemma Encode_returns_or_fails:
  assumes progress: "\<And>c planes l cursor remaining.
      write_raw_data eng c planes 16 = Returns (l, cursor, remaining) \<Longrightarrow>
      next_scanline c < next_scanline c + l"
  shows "\<exists>r. Encode eng enc data dst cap = Some r"
proof (cases "jpeg_start_compress eng (jpeg_memory_dest (fresh_dest_block eng) enc dst cap)")
  case (Inl e)
  then show ?thesis by (simp add: Encode_def)
next
  case (Inr c)
  let ?w = "image_width c" and ?h = "image_height c"
  from encode_loop_returns [of eng ?w data "data + ucast (?w * ?h)"
         "data + ucast (?w * ?h) + ucast (?w * ?h) div 4" c] progress
  obtain r where "encode_loop eng ?w data (data + ucast (?w * ?h))
         (data + ucast (?w * ?h) + ucast (?w * ?h) div 4) c = Some r"
    by blast
  with Inr show ?thesis
    by (auto simp: Encode_def Let_def split: sum.splits option.splits)
qed

lemma i420_loop_returns:
  assumes progress: "\<And>c planes l.
      read_raw_data eng c planes 16 = Returns l \<Longrightarrow> output_scanline c < output_scanline c + l"
  shows "\<exists>r. i420_loop eng h ys uvs Y U V st = Some r"
proof (induction "2 ^ 32 - unat (output_scanline (snd st))" arbitrary: st rule: less_induct)
  case less
  show ?case
  proof (cases "output_scanline (snd st) < output_height (snd st)")
    case False
    then show ?thesis by (subst i420_loop.simps) simp
  next
    case True
    let ?planes = "decode_rows (output_scanline (snd st)) h ys uvs Y U V 0 (fst st)"
    show ?thesis
    proof (cases "jpeg_read_raw_data eng (snd st) ?planes 16")
      case (Inl e)
      with True show ?thesis by (subst i420_loop.simps) (simp add: Let_def)
    next
      case (Inr c')
      then obtain l where
        w: "read_raw_data eng (snd st) ?planes 16 = Returns l"
        and n: "output_scanline c' = output_scanline (snd st) + l"
        by (auto simp: jpeg_read_raw_data_def called_def split: engine_result.splits)
      from progress [OF w] n have "unat (output_scanline (snd st)) < unat (output_scanline c')"
        by (simp add: word_less_nat_alt)
      moreover have "unat (output_scanline c') < 2 ^ 32"
        using unsigned_less [of "output_scanline c'"] by simp
      ultimately have "2 ^ 32 - unat (output_scanline (snd (?planes, c')))
                       < 2 ^ 32 - unat (output_scanline (snd st))"
        by simp
      from less [OF this] obtain r where "i420_loop eng h ys uvs Y U V (?planes, c') = Some r"
        by blast
      with True Inr show ?thesis by (subst i420_loop.simps) (simp add: Let_def)
    qed
  qed
qed

lemma DecodeToI420_returns_or_fails:
  assumes progress: "\<And>c planes l.
      read_raw_data eng c planes 16 = Returns l \<Longrightarrow> output_scanline c < output_scanline c + l"
  shows "\<exists>r. DecodeToI420 eng jpegData jpegSize out outputSize info = Some r"
proof -
  have "\<exists>r. i420_loop eng h ys uvs Y U V st = Some r" for h ys uvs Y U V st
    using i420_loop_returns progress by blast
  then have nn: "i420_loop eng h ys uvs Y U V st \<noteq> None" for h ys uvs Y U V st by simp
  show ?thesis
    by (simp add: DecodeToI420_def Let_def nn split: sum.splits option.splits prod.splits)
qed

lemma EncodeGray8_error_exit:
  "(\<And>c. start_compress eng c = Error_exit) \<Longrightarrow>
     EncodeGray8 eng grayData w h quality dst cap = Some (Inl ErrorExit)"
  by (simp add: EncodeGray8_def jpeg_start_compress_def Let_def jpeg_memory_dest_def
        jpeg_create_compress_def jpeg_set_defaults_def jpeg_set_quality_def
        call_dest_method_def init_destination_def)

lemma engine_error_exit_is_not_returned:
  assumes "read_header eng (decompressor_for eng jpegData jpegSize) True = Error_exit"
  shows "GetJpegInfo eng jpegData jpegSize info = Inl ErrorExit"
    and "DecodeToGray eng jpegData jpegSize out outputSize info = Some (Inl ErrorExit)"
    and "DecodeToI420 eng jpegData jpegSize out outputSize info = Some (Inl ErrorExit)"
  using assms
  by (simp_all add: GetJpegInfo_def DecodeToGray_def DecodeToI420_def decompressor_for_def
        Let_def jpeg_read_header_def)

end
